theory Spec2Isabelle
  imports Complex_Main "HOL-Library.Log_Nat"
begin

section \<open>JavaScript strings\<close>

text \<open>
  A JavaScript string is modelled as a \<^typ>\<open>string\<close>. Case conversion and the regular
  expression classes are the ASCII ones: \<open>toUpperCase\<close> and \<open>toLowerCase\<close> move the 26
  letters and leave every other character alone.
\<close>

definition lowers :: string where
  "lowers = ''abcdefghijklmnopqrstuvwxyz''"

definition uppers :: string where
  "uppers = ''ABCDEFGHIJKLMNOPQRSTUVWXYZ''"

definition digits :: string where
  "digits = ''0123456789''"

text \<open>The white space of \<open>\s\<close> and of \<open>trim\<close> among the first 256 characters.\<close>

definition spaces :: string where
  "spaces = [CHR '' '', CHR 0x09, CHR 0x0A, CHR 0x0B, CHR 0x0C, CHR 0x0D, CHR 0xA0]"

datatype char_kind = Upper | Lower | Digit | Space | Other

definition kind :: "char \<Rightarrow> char_kind" where
  "kind c =
     (if c \<in> set uppers then Upper else if c \<in> set lowers then Lower
      else if c \<in> set digits then Digit else if c \<in> set spaces then Space else Other)"

text \<open>The same letter in the other case.\<close>

definition other_case :: "char \<Rightarrow> char" where
  "other_case c =
     (case map_of (zip (lowers @ uppers) (uppers @ lowers)) c of Some d \<Rightarrow> d | None \<Rightarrow> c)"

definition upper_char :: "char \<Rightarrow> char" where
  "upper_char c = (if kind c = Lower then other_case c else c)"

definition lower_char :: "char \<Rightarrow> char" where
  "lower_char c = (if kind c = Upper then other_case c else c)"

definition toUpperCase :: "string \<Rightarrow> string" where
  "toUpperCase s = map upper_char s"

definition toLowerCase :: "string \<Rightarrow> string" where
  "toLowerCase s = map lower_char s"

text \<open>\<open>String.prototype.trim\<close> and \<open>String.prototype.includes\<close>.\<close>

definition is_space :: "char \<Rightarrow> bool" where
  "is_space c = (kind c = Space)"

definition is_word :: "char \<Rightarrow> bool" where
  "is_word c = (kind c = Upper \<or> kind c = Lower \<or> kind c = Digit \<or> c = CHR ''_'')"

definition trim :: "string \<Rightarrow> string" where
  "trim s = rev (dropWhile is_space (rev (dropWhile is_space s)))"

fun starts_with :: "string \<Rightarrow> string \<Rightarrow> bool" where
  "starts_with s [] = True"
| "starts_with [] (a # w) = False"
| "starts_with (c # cs) (a # w) = (c = a \<and> starts_with cs w)"

fun str_includes :: "string \<Rightarrow> string \<Rightarrow> bool" where
  "str_includes [] w = (w = [])"
| "str_includes (c # cs) w = (starts_with (c # cs) w \<or> str_includes cs w)"

section \<open>Regular expressions\<close>

text \<open>
  The regular expression literals of the sources are written as terms of the type \<open>re\<close>,
  and \<open>RegExp.prototype.test\<close>, \<open>String.prototype.match\<close> and \<open>String.prototype.replace\<close>
  are functions on them. A position in the subject string is the character before it
  (if any) and the rest of the string. \<open>ends ci r q\<close> lists the positions at which a match
  of \<open>r\<close> that starts at \<open>q\<close> can end, in the order in which a backtracking matcher tries
  them, so that the head of the list is the match that JavaScript reports; \<open>ci\<close> is the
  flag \<open>i\<close>. The constructors are: a character class \<open>[...]\<close> (\<open>One\<close>) and its
  complement \<open>[^...]\<close> (\<open>NoneOf\<close>), the dot, a literal string, sequence, alternative,
  the greedy quantifier \<open>{n,m}\<close> (\<open>Rep\<close>, with \<open>None\<close> for no upper bound), the
  assertions \<open>^\<close>, \<open>$\<close> and \<open>\b\<close>, the lookahead \<open>(?=...)\<close> and the lookbehind
  \<open>(?<=[...])\<close> of one character class.
\<close>

datatype atom = C char | Up | Lo | D | W | S

fun atom_has :: "atom \<Rightarrow> char \<Rightarrow> bool" where
  "atom_has (C a) c = (a = c)"
| "atom_has Up c = (kind c = Upper)"
| "atom_has Lo c = (kind c = Lower)"
| "atom_has D c = (kind c = Digit)"
| "atom_has W c = is_word c"
| "atom_has S c = is_space c"

definition atom_match :: "bool \<Rightarrow> atom \<Rightarrow> char \<Rightarrow> bool" where
  "atom_match ci a c =
     (atom_has a c \<or> (ci \<and> (atom_has a (upper_char c) \<or> atom_has a (lower_char c))))"

datatype re =
    One "atom list" | NoneOf "atom list" | Dot | Lit string
  | Seq re re | Alt re re | Rep nat "nat option" re
  | Bol | Eol | WordB | Ahead re | Behind "atom list"

type_synonym pos = "char option \<times> string"

fun lit_ends :: "bool \<Rightarrow> string \<Rightarrow> pos \<Rightarrow> pos list" where
  "lit_ends ci [] q = [q]"
| "lit_ends ci (a # w) (p, []) = []"
| "lit_ends ci (a # w) (p, c # cs) =
     (if atom_match ci (C a) c then lit_ends ci w (Some c, cs) else [])"

text \<open>
  The quantifier follows the RepeatMatcher of the language definition: an iteration beyond
  the required ones must consume a character, more iterations are tried before fewer. The
  first argument of \<open>rep\<close> after the matcher bounds the number of iterations; \<open>ends\<close>
  passes the required number plus the length of the rest of the string, which no run of
  iterations exceeds.
\<close>

fun rep :: "(pos \<Rightarrow> pos list) \<Rightarrow> nat \<Rightarrow> nat \<Rightarrow> nat option \<Rightarrow> pos \<Rightarrow> pos list" where
  "rep f 0 n m q = (if n = 0 then [q] else [])"
| "rep f (Suc k) n m q =
     (if m = Some 0 then [q]
      else concat (map (\<lambda>q'. if 0 < n \<or> length (snd q') < length (snd q)
                               then rep f k (n - 1) (map_option (\<lambda>x. x - 1) m) q' else [])
                       (f q))
           @ (if n = 0 then [q] else []))"

definition word_before :: "pos \<Rightarrow> bool" where
  "word_before q = (case fst q of None \<Rightarrow> False | Some c \<Rightarrow> is_word c)"

definition word_after :: "pos \<Rightarrow> bool" where
  "word_after q = (case snd q of [] \<Rightarrow> False | c # _ \<Rightarrow> is_word c)"

primrec ends :: "bool \<Rightarrow> re \<Rightarrow> pos \<Rightarrow> pos list" where
  "ends ci (One as) = (\<lambda>q. case snd q of [] \<Rightarrow> []
       | c # cs \<Rightarrow> if list_ex (\<lambda>a. atom_match ci a c) as then [(Some c, cs)] else [])"
| "ends ci (NoneOf as) = (\<lambda>q. case snd q of [] \<Rightarrow> []
       | c # cs \<Rightarrow> if list_ex (\<lambda>a. atom_match ci a c) as then [] else [(Some c, cs)])"
| "ends ci Dot = (\<lambda>q. case snd q of [] \<Rightarrow> []
       | c # cs \<Rightarrow> if c = CHR 0x0A \<or> c = CHR 0x0D then [] else [(Some c, cs)])"
| "ends ci (Lit w) = lit_ends ci w"
| "ends ci (Seq a b) = (\<lambda>q. concat (map (ends ci b) (ends ci a q)))"
| "ends ci (Alt a b) = (\<lambda>q. ends ci a q @ ends ci b q)"
| "ends ci (Rep n m a) = (\<lambda>q. rep (ends ci a) (n + length (snd q)) n m q)"
| "ends ci Bol = (\<lambda>q. if fst q = None then [q] else [])"
| "ends ci Eol = (\<lambda>q. if snd q = [] then [q] else [])"
| "ends ci WordB = (\<lambda>q. if word_before q \<noteq> word_after q then [q] else [])"
| "ends ci (Ahead a) = (\<lambda>q. if ends ci a q = [] then [] else [q])"
| "ends ci (Behind as) = (\<lambda>q. case fst q of None \<Rightarrow> []
       | Some c \<Rightarrow> if list_ex (\<lambda>a. atom_match ci a c) as then [q] else [])"

text \<open>The first match at or after a position: where it starts and where it ends.\<close>

fun search :: "bool \<Rightarrow> re \<Rightarrow> pos \<Rightarrow> (pos \<times> pos) option" where
  "search ci r (p, []) =
     (case ends ci r (p, []) of [] \<Rightarrow> None | e # _ \<Rightarrow> Some ((p, []), e))"
| "search ci r (p, c # cs) =
     (case ends ci r (p, c # cs) of
        [] \<Rightarrow> search ci r (Some c, cs)
      | e # _ \<Rightarrow> Some ((p, c # cs), e))"

text \<open>
  A regular expression with its flag \<open>i\<close>, and \<open>test\<close> for an expression without the flag
  \<open>g\<close> (or with it and \<open>lastIndex = 0\<close>).
\<close>

type_synonym regexp = "bool \<times> re"

definition test :: "regexp \<Rightarrow> string \<Rightarrow> bool" where
  "test rx s = (search (fst rx) (snd rx) (None, s) \<noteq> None)"

text \<open>
  \<open>String.prototype.match\<close> and \<open>String.prototype.replace\<close> with a global expression go
  through the string from left to right: at a position that is not inside the previous
  match the expression is tried; a match is counted (or replaced by \<open>f\<close> of the matched
  text) and the search goes on behind it, one character further when the match is empty.
  The argument \<open>k\<close> is the number of characters still covered by the previous match.
\<close>

fun count_from :: "bool \<Rightarrow> re \<Rightarrow> nat \<Rightarrow> pos \<Rightarrow> nat" where
  "count_from ci r k (p, []) = (if k = 0 \<and> ends ci r (p, []) \<noteq> [] then 1 else 0)"
| "count_from ci r k (p, c # cs) =
     (if k > 0 then count_from ci r (k - 1) (Some c, cs)
      else (case ends ci r (p, c # cs) of
              [] \<Rightarrow> count_from ci r 0 (Some c, cs)
            | e # _ \<Rightarrow>
                1 + count_from ci r (length (c # cs) - length (snd e) - 1) (Some c, cs)))"

definition match_count :: "regexp \<Rightarrow> string \<Rightarrow> nat" where
  "match_count rx s = count_from (fst rx) (snd rx) 0 (None, s)"

fun replace_from :: "bool \<Rightarrow> re \<Rightarrow> (string \<Rightarrow> string) \<Rightarrow> nat \<Rightarrow> pos \<Rightarrow> string" where
  "replace_from ci r f k (p, []) = (if k = 0 \<and> ends ci r (p, []) \<noteq> [] then f [] else [])"
| "replace_from ci r f k (p, c # cs) =
     (if k > 0 then replace_from ci r f (k - 1) (Some c, cs)
      else (case ends ci r (p, c # cs) of
              [] \<Rightarrow> c # replace_from ci r f 0 (Some c, cs)
            | e # _ \<Rightarrow>
                (let n = length (c # cs) - length (snd e)
                 in f (take n (c # cs)) @ (if n = 0 then [c] else [])
                    @ replace_from ci r f (n - 1) (Some c, cs))))"

definition replace_all :: "regexp \<Rightarrow> (string \<Rightarrow> string) \<Rightarrow> string \<Rightarrow> string" where
  "replace_all rx f s = replace_from (fst rx) (snd rx) f 0 (None, s)"

text \<open>
  \<open>String.prototype.split\<close> with a separator of one character, and
  \<open>Array.prototype.join\<close>.
\<close>

fun split_on :: "char \<Rightarrow> string \<Rightarrow> string list" where
  "split_on sep [] = [[]]"
| "split_on sep (c # cs) =
     (if c = sep then [] # split_on sep cs
      else (case split_on sep cs of [] \<Rightarrow> [[c]] | w # ws \<Rightarrow> (c # w) # ws))"

fun join_with :: "string \<Rightarrow> string list \<Rightarrow> string" where
  "join_with sep [] = []"
| "join_with sep [w] = w"
| "join_with sep (w # v # ws) = w @ sep @ join_with sep (v # ws)"

text \<open>Shorthands for writing the literals down.\<close>

definition seqs :: "re list \<Rightarrow> re" where
  "seqs rs = foldr Seq (butlast rs) (last rs)"

definition alts :: "re list \<Rightarrow> re" where
  "alts rs = foldr Alt (butlast rs) (last rs)"

definition words :: "string list \<Rightarrow> re" where
  "words ws = alts (map Lit ws)"

definition Star :: "re \<Rightarrow> re" where
  "Star r = Rep 0 None r"

definition Plus :: "re \<Rightarrow> re" where
  "Plus r = Rep 1 None r"

definition Opt :: "re \<Rightarrow> re" where
  "Opt r = Rep 0 (Some 1) r"

text \<open>\<open>a\s*b\<close>, \<open>\s*\<close>, \<open>\s+\<close>, \<open>\d\<close>\<close>

definition sp :: "string \<Rightarrow> string \<Rightarrow> re" where
  "sp a b = seqs [Lit a, Star (One [S]), Lit b]"

definition ws0 :: re where
  "ws0 = Star (One [S])"

definition ws1 :: re where
  "ws1 = Plus (One [S])"

definition dig :: re where
  "dig = One [D]"

section \<open>ReceiptLearningSystem (src/app/lib/aiReceiptParser.ts)\<close>

text \<open>
  The pattern table is the object kept under the key \<open>learned_patterns\<close> of the browser's
  local storage: a record of records of strings, \<open>Record<string, Record<string, string>>\<close>,
  modelled as a map from the keys it owns to their values. A learning entry carries the
  fields of \<open>LearningData\<close>.
\<close>

type_synonym store_patterns = "string \<rightharpoonup> string"
type_synonym pattern_table = "string \<rightharpoonup> store_patterns"

record LearningData =
  timestamp :: string
  storeName :: string
  originalName :: string
  oldEnhancedName :: string
  newEnhancedName :: string
  correctionType :: string

text \<open>\<open>allPatterns[storeName.toUpperCase()] || {}\<close>\<close>

definition getLearnedPatterns :: "pattern_table \<Rightarrow> string \<Rightarrow> store_patterns" where
  "getLearnedPatterns allPatterns store =
     (case allPatterns (toUpperCase store) of Some p \<Rightarrow> p | None \<Rightarrow> Map.empty)"

text \<open>
  \<open>updatePatterns\<close> reads the table, creates the store's record when it is missing, sets
  \<open>patterns[storeKey][entry.originalName] = entry.newEnhancedName\<close> and writes the table
  back. The function returns the table as it is stored afterwards. (An exception of the
  storage is caught and logged by the source and leaves the table as it was; the model is
  the write that succeeds.)
\<close>

definition updatePatterns :: "LearningData \<Rightarrow> pattern_table \<Rightarrow> pattern_table" where
  "updatePatterns entry patterns =
     (let storeKey = toUpperCase (storeName entry);
          forStore = (case patterns storeKey of Some p \<Rightarrow> p | None \<Rightarrow> Map.empty)
      in patterns(storeKey \<mapsto> forStore(originalName entry \<mapsto> newEnhancedName entry)))"

text \<open>
  The items handed to \<open>applyLearnedEnhancements\<close> have a name and an optional enhanced name;
  the items it returns have a name, an enhanced name, the flag \<open>wasLearned\<close> and an optional
  flag \<open>shouldHide\<close>.
\<close>

record parsed_item =
  item_name :: string
  item_enhancedName :: "string option"

record learned_item =
  learned_name :: string
  learned_enhancedName :: string
  wasLearned :: bool
  shouldHide :: "bool option"

text \<open>\<open>item.enhancedName || item.name\<close>: a missing or empty enhanced name gives the name.\<close>

definition enhanced_or_name :: "parsed_item \<Rightarrow> string" where
  "enhanced_or_name item =
     (case item_enhancedName item of
        None \<Rightarrow> item_name item
      | Some e \<Rightarrow> if e = [] then item_name item else e)"

definition learn_item :: "store_patterns \<Rightarrow> parsed_item \<Rightarrow> learned_item" where
  "learn_item patterns item =
     (let learned = patterns (item_name item)
      in if learned = Some ''__HIDDEN__'' then
           \<lparr>learned_name = item_name item, learned_enhancedName = enhanced_or_name item,
            wasLearned = True, shouldHide = Some True\<rparr>
         else (case learned of
                 Some l \<Rightarrow>
                   if l \<noteq> [] then
                     \<lparr>learned_name = item_name item, learned_enhancedName = l,
                      wasLearned = True, shouldHide = None\<rparr>
                   else
                     \<lparr>learned_name = item_name item, learned_enhancedName = enhanced_or_name item,
                      wasLearned = False, shouldHide = None\<rparr>
               | None \<Rightarrow>
                   \<lparr>learned_name = item_name item, learned_enhancedName = enhanced_or_name item,
                    wasLearned = False, shouldHide = None\<rparr>))"

definition applyLearnedEnhancements ::
  "pattern_table \<Rightarrow> parsed_item list \<Rightarrow> string \<Rightarrow> learned_item list" where
  "applyLearnedEnhancements allPatterns items store =
     map (learn_item (getLearnedPatterns allPatterns store)) items"

definition hide_correction :: LearningData where
  "hide_correction =
     \<lparr>timestamp = ''2025-01-01T00:00:00.000Z'', storeName = ''SAFEWAY'',
      originalName = ''LND O LKS BUTTER'', oldEnhancedName = ''Land O Lakes Butter'',
      newEnhancedName = ''__HIDDEN__'', correctionType = ''item_hidden''\<rparr>"

section \<open>EnhancedNonFoodDetector (src/unnamed/part\_007)\<close>

text \<open>
  Numbers are modelled as real numbers: the constants of the detector are decimal
  fractions, added and compared exactly. The tables \<open>detectionRules\<close> and \<open>nonFoodBrands\<close>
  are lists of pairs in the order of the object literals, which is the order
  \<open>Object.entries\<close> follows.
\<close>

definition i_rx :: "re list \<Rightarrow> regexp" where
  "i_rx rs = (True, seqs rs)"

definition definiteNonFood :: "(string \<times> regexp list) list" where
  "definiteNonFood =
   [(''tax'',
     [i_rx [WordB, alts [Seq (Lit ''sale'') (Opt (Lit ''s'')), Lit ''state'', Lit ''city'',
                        Lit ''local'', Lit ''county''], ws0, Lit ''tax'', WordB],
      i_rx [WordB, Lit ''tax'', ws0,
            Alt (seqs [Plus dig, Lit ''.'', Rep 2 (Some 2) dig]) (seqs [Plus dig, Lit ''%''])],
      i_rx [WordB, words [''hst'', ''gst'', ''pst'', ''vat''], WordB],
      i_rx [WordB, Lit ''total'', ws0, Lit ''tax''],
      i_rx [Lit ''tax'', ws0, Lit ''total'']]),
    (''payment'',
     [i_rx [WordB, words [''amex'', ''visa'', ''mastercard'', ''discover'', ''card''], ws0,
            words [''tend'', ''tender'', ''payment'', ''transaction'']],
      i_rx [WordB, words [''cash'', ''credit'', ''debit''], ws0,
            words [''tend'', ''tender'', ''payment'']],
      i_rx [WordB, words [''payment'', ''tender''], ws0, words [''amount'', ''method'']],
      i_rx [WordB, Lit ''change'', ws0, words [''due'', ''given'']],
      i_rx [WordB, words [''subtotal'', ''total'', ''balance''], ws0,
            Plus dig, Lit ''.'', Rep 2 (Some 2) dig, Eol],
      i_rx [WordB, Alt (Lit ''cashback'') (sp ''cash'' ''back''), WordB],
      i_rx [WordB, Lit ''gift'', ws0, Lit ''card'']]),
    (''fees'',
     [i_rx [WordB, words [''bag'', ''bottle'', ''container'', ''recycling'', ''environmental''],
            ws0, words [''fee'', ''charge'', ''deposit'']],
      i_rx [WordB, Lit ''crv'', WordB],
      i_rx [WordB, words [''service'', ''handling'', ''processing'', ''delivery'',
                         ''convenience''], ws0, words [''fee'', ''charge'']],
      i_rx [WordB, words [''plastic'', ''paper'', ''shopping''], ws0, Lit ''bag''],
      i_rx [WordB, Lit ''deposit'', ws0, words [''fee'', ''charge'']]]),
    (''coupons'',
     [i_rx [WordB, words [''manufacturer'', ''store'', ''digital'', ''mobile'', ''app''], ws0,
            words [''coupon'', ''discount'']],
      i_rx [WordB, Lit ''scanned'', ws0, Lit ''coupon''],
      i_rx [WordB, Lit ''mfr'', ws0, Lit ''coupon''],
      i_rx [WordB, words [''member'', ''club'', ''card''], ws0,
            words [''savings'', ''discount'', ''price'']],
      i_rx [WordB, Lit ''total'', ws0, Lit ''savings''],
      i_rx [WordB, Lit ''you'', ws0, Lit ''saved''],
      (False, seqs [Bol, Plus dig, Lit ''.'', Rep 2 (Some 2) dig, Lit ''-'', Eol]),
      (False, seqs [Lit ''-'', ws0, Opt (Lit ''$''), Plus dig, Lit ''.'', Rep 2 (Some 2) dig,
                    Eol]),
      i_rx [WordB, words [''promo'', ''promotion'', ''deal'', ''offer'', ''rebate''], WordB]])]"

definition likelyNonFood :: "(string \<times> regexp list) list" where
  "likelyNonFood =
   [(''personalCare'',
     [i_rx [WordB, words [''shampoo'', ''conditioner'', ''soap'', ''lotion'', ''deodorant'',
                         ''toothpaste'', ''mouthwash''], WordB],
      i_rx [WordB, words [''razor'', ''shaving'', ''cologne'', ''perfume'', ''makeup'',
                         ''lipstick'', ''foundation''], WordB],
      i_rx [WordB, alts [Lit ''bandaid'', sp ''first'' ''aid'', Lit ''medicine'',
                        Lit ''vitamin'', Lit ''supplement'', Lit ''aspirin'', Lit ''tylenol'',
                        Lit ''advil''], WordB],
      i_rx [WordB, words [''feminine'', ''tampons'', ''pads'', ''pregnancy'', ''test''],
            WordB]]),
    (''household'',
     [i_rx [WordB, alts [Lit ''detergent'', sp ''fabric'' ''softener'', Lit ''bleach'',
                        Lit ''cleaner'', Lit ''disinfectant'', Lit ''windex'', Lit ''lysol''],
            WordB],
      i_rx [WordB, alts [sp ''toilet'' ''paper'', sp ''paper'' ''towel'', Lit ''tissue'',
                        Lit ''napkin'', Lit ''kleenex'', Lit ''charmin'', Lit ''bounty''],
            WordB],
      i_rx [WordB, alts [sp ''trash'' ''bag'', sp ''garbage'' ''bag'', sp ''storage'' ''bag'',
                        sp ''aluminum'' ''foil'', sp ''plastic'' ''wrap''], WordB],
      i_rx [WordB, alts [sp ''light'' ''bulb'', Lit ''battery'', Lit ''batteries'',
                        sp ''extension'' ''cord'', sp ''air'' ''freshener''], WordB]]),
    (''pharmacy'',
     [i_rx [WordB, words [''prescription'', ''rx'', ''pharmacy'', ''medication'', ''pills'',
                         ''tablets'', ''capsules''], WordB],
      i_rx [WordB, alts [Lit ''cough'', Lit ''cold'', Lit ''flu'', Lit ''allergy'',
                        sp ''pain'' ''relief'', Lit ''antacid'', Lit ''laxative''], WordB],
      i_rx [WordB, alts [sp ''blood'' ''pressure'', Lit ''diabetes'', Lit ''insulin'',
                        Lit ''heart'', Lit ''cholesterol''], WordB]]),
    (''babyPet'',
     [i_rx [WordB, alts [Lit ''diaper'', Lit ''wipe'',
                        seqs [Lit ''baby'', ws0,
                              words [''food'', ''formula'', ''oil'', ''powder'', ''lotion'']]],
            WordB],
      i_rx [WordB, words [''cat'', ''dog'', ''pet''], ws0,
            words [''food'', ''treat'', ''toy'', ''litter'', ''collar'', ''leash''], WordB],
      i_rx [WordB, alts [Lit ''purina'', Lit ''pedigree'', Lit ''friskies'',
                        sp ''meow'' ''mix'', Lit ''iams'', Lit ''whiskas''], WordB]]),
    (''nonEdible'',
     [i_rx [WordB, alts [Lit ''magazine'', Lit ''newspaper'', Lit ''book'',
                        sp ''greeting'' ''card'', sp ''gift'' ''card'', sp ''phone'' ''card''],
            WordB],
      i_rx [WordB, words [''lottery'', ''scratch'', ''ticket'', ''cigarette'', ''tobacco'',
                         ''vape'', ''electronic''], WordB],
      i_rx [WordB, words [''flower'', ''plant'', ''garden'', ''fertilizer'', ''mulch'',
                         ''seeds''], WordB]])]"

definition storeServices :: "regexp list" where
  "storeServices =
   [i_rx [WordB, Lit ''store'', ws0, Plus dig],
    i_rx [WordB, words [''manager'', ''employee'', ''staff'', ''cashier''], WordB],
    i_rx [WordB, words [''receipt'', ''transaction''], ws0, words [''number'', ''id'', ''#'']],
    i_rx [WordB, Lit ''your'', ws0, Lit ''cashier'', ws0, Lit ''today'', ws0, Lit ''was''],
    i_rx [WordB, Lit ''thank'', ws0, Lit ''you'', ws0, Lit ''for'', ws0, Lit ''shopping''],
    i_rx [WordB, words [''date'', ''time'', ''address'', ''phone''], ws0,
          One [C (CHR '':''), C (CHR ''='')]],
    (False, seqs [WordB, Rep 1 (Some 2) dig, Lit ''/'', Rep 1 (Some 2) dig, Lit ''/'',
                  Rep 2 (Some 4) dig, WordB]),
    (False, seqs [WordB, Rep 3 (Some 3) dig, Lit ''-'', Rep 3 (Some 3) dig, Lit ''-'',
                  Rep 4 (Some 4) dig, WordB]),
    i_rx [WordB, Plus dig, ws0,
          words [''first'', ''main'', ''state'', ''road'', ''street'', ''ave'', ''blvd''],
          WordB]]"

definition nonFoodBrands :: "(string \<times> string list) list" where
  "nonFoodBrands =
   [(''personalCare'',
     [''dove'', ''olay'', ''head shoulders'', ''pantene'', ''herbal essences'', ''aussie'',
      ''tresemme'', ''colgate'', ''crest'', ''oral-b'', ''listerine'', ''scope'',
      ''aquafresh'', ''gillette'', ''schick'', ''venus'', ''old spice'', ''axe'', ''degree'',
      ''secret'', ''covergirl'', ''maybelline'', ''revlon'', ''loreal'', ''neutrogena'',
      ''cetaphil'']),
    (''household'',
     [''tide'', ''downy'', ''gain'', ''cascade'', ''finish'', ''dawn'', ''joy'',
      ''lysol'', ''clorox'', ''windex'', ''febreze'', ''glade'', ''air wick'',
      ''charmin'', ''bounty'', ''scott'', ''kleenex'', ''puffs'', ''angel soft'',
      ''glad'', ''hefty'', ''ziploc'', ''reynolds'', ''saran'']),
    (''pharmacy'',
     [''tylenol'', ''advil'', ''aleve'', ''motrin'', ''bayer'', ''excedrin'',
      ''benadryl'', ''claritin'', ''zyrtec'', ''allegra'', ''sudafed'',
      ''robitussin'', ''mucinex'', ''dayquil'', ''nyquil'', ''pepto'', ''tums'',
      ''centrum'', ''nature made'', ''one a day'', ''flintstones'']),
    (''babyPet'',
     [''pampers'', ''huggies'', ''luvs'', ''honest'', ''seventh generation'',
      ''similac'', ''enfamil'', ''gerber'', ''earth best'',
      ''purina'', ''pedigree'', ''friskies'', ''meow mix'', ''iams'', ''whiskas'',
      ''blue buffalo'', ''hills'', ''royal canin'', ''wellness''])]"

text \<open>
  The result of a detection. The field \<open>reason\<close> is a sentence in the source; the model
  keeps which sentence it is and the value printed into it (the category, the brand, or
  the context score as a rounded percentage).
\<close>

datatype action = hide | review | keep

datatype reason =
    Definite string | StoreService | Likely string | Brand string | ContextScore int
  | NegativePrice | HighPrice | RoundAmount | ShortName | ProductCode | NoIndicators

record NonFoodDetectionResult =
  isNonFood :: bool
  confidence :: real
  reason :: reason
  category :: string
  suggestedAction :: action

text \<open>The optional third argument of \<open>detectNonFood\<close>; an item of \<open>allItems\<close> is a name
  and a price.\<close>

record detect_context =
  ctx_storeName :: "string option"
  allItems :: "(string \<times> real) list option"
  itemIndex :: "int option"

text \<open>\<open>x % 1 === 0\<close>\<close>

definition is_whole :: "real \<Rightarrow> bool" where
  "is_whole x = (of_int \<lfloor>x\<rfloor> = x)"

text \<open>\<open>Math.round\<close>\<close>

definition js_round :: "real \<Rightarrow> int" where
  "js_round x = \<lfloor>x + 1 / 2\<rfloor>"

text \<open>
  \<open>analyzeReceiptContext\<close> gives every index of the item list a score; \<open>contextScore\<close> is
  the body of its loop for the item at \<open>index\<close> of a list of \<open>len\<close> items.
\<close>

definition contextScore :: "nat \<Rightarrow> nat \<Rightarrow> real \<Rightarrow> string \<Rightarrow> real" where
  "contextScore len index price store =
     (let s1 = (if price > 100 then 0 + 0.8 else if price > 50 then 0 + 0.4 else 0);
          s2 = (if is_whole price \<and> price \<ge> 20 then s1 + 0.3 else s1);
          s3 = (if price < 0 then s2 + 0.9 else s2);
          positionFromEnd = int len - int index;
          s4 = (if positionFromEnd \<le> 3 \<and> price > 20 then s3 + 0.2 else s3);
          s5 = (if str_includes store ''PHARMACY'' \<or> str_includes store ''CVS''
                   \<or> str_includes store ''WALGREENS''
                then s4 + 0.1 else s4)
      in s5)"

definition analyzeReceiptContext :: "(string \<times> real) list \<Rightarrow> string \<Rightarrow> real list" where
  "analyzeReceiptContext items store =
     map (\<lambda>(index, item). contextScore (length items) index (snd item) store)
         (zip [0 ..< length items] items)"

type_synonym det_state = "real \<times> string \<times> reason option"

text \<open>\<open>reason = reason || d\<close>\<close>

definition or_reason :: "reason option \<Rightarrow> reason \<Rightarrow> reason option" where
  "or_reason r d = (case r of None \<Rightarrow> Some d | Some x \<Rightarrow> Some x)"

text \<open>Layer 1: the category of the first definite pattern that matches, if any.\<close>

definition first_definite :: "string \<Rightarrow> string option" where
  "first_definite name =
     map_option fst (find (\<lambda>(cat, patterns). list_ex (\<lambda>p. test p name) patterns)
                          definiteNonFood)"

text \<open>Layer 3: every matching pattern raises the confidence to 0.85 and sets the category.\<close>

definition layer3 :: "string \<Rightarrow> det_state \<Rightarrow> det_state" where
  "layer3 name st =
     fold (\<lambda>(cat, patterns) st.
             fold (\<lambda>p (conf, c, r).
                     if test p name then (max conf 0.85, cat, Some (Likely cat))
                     else (conf, c, r))
                  patterns st)
          likelyNonFood st"

text \<open>Layer 4: every brand contained in the name raises the confidence to 0.8.\<close>

definition layer4 :: "string \<Rightarrow> det_state \<Rightarrow> det_state" where
  "layer4 name st =
     fold (\<lambda>(brandCat, brands) st.
             fold (\<lambda>brand (conf, c, r).
                     if str_includes name (toLowerCase brand)
                     then (max conf 0.8, brandCat, Some (Brand brand))
                     else (conf, c, r))
                  brands st)
          nonFoodBrands st"

text \<open>
  Layer 5: with an item list and an index in the context, the confidence becomes the
  maximum of itself and the context score of that index
  (\<open>contextScores.get(context.itemIndex) || 0\<close>: an index outside the list scores 0).
\<close>

definition layer5 :: "detect_context option \<Rightarrow> det_state \<Rightarrow> det_state" where
  "layer5 ctx st =
     (case ctx of
        None \<Rightarrow> st
      | Some c \<Rightarrow>
          (case (allItems c, itemIndex c) of
             (Some items, Some idx) \<Rightarrow>
               (let contextScores =
                      analyzeReceiptContext items
                        (case ctx_storeName c of Some n \<Rightarrow> n | None \<Rightarrow> []);
                    score = (if 0 \<le> idx \<and> idx < int (length contextScores)
                             then contextScores ! nat idx else 0)
                in case st of (conf, cat, r) \<Rightarrow>
                     (max conf score, cat,
                      if score > 0.5 then or_reason r (ContextScore (js_round (score * 100)))
                      else r))
           | _ \<Rightarrow> st))"

text \<open>Layer 6 for a price that is not negative, and layer 7.\<close>

definition layer6 :: "real \<Rightarrow> det_state \<Rightarrow> det_state" where
  "layer6 price st =
     (let st1 = (case st of (conf, cat, r) \<Rightarrow>
                   if price > 100 then (max conf 0.7, cat, or_reason r HighPrice)
                   else (conf, cat, r))
      in case st1 of (conf, cat, r) \<Rightarrow>
           if price \<ge> 50 \<and> is_whole price
           then (max conf 0.6, ''payment'', or_reason r RoundAmount)
           else (conf, cat, r))"

definition code_shape :: regexp where
  "code_shape = (True, seqs [Bol, Plus dig, Star (One [Lo]), Star dig, Eol])"

definition layer7 :: "string \<Rightarrow> det_state \<Rightarrow> det_state" where
  "layer7 name st =
     (let st1 = (case st of (conf, cat, r) \<Rightarrow>
                   if length name < 3 then (max conf 0.7, cat, or_reason r ShortName)
                   else (conf, cat, r))
      in case st1 of (conf, cat, r) \<Rightarrow>
           if test code_shape name then (max conf 0.8, cat, or_reason r ProductCode)
           else (conf, cat, r))"

definition finish :: "det_state \<Rightarrow> NonFoodDetectionResult" where
  "finish st =
     (case st of (conf, cat, r) \<Rightarrow>
        \<lparr>isNonFood = (conf \<ge> 0.6),
         confidence = conf,
         reason = (case r of Some x \<Rightarrow> x | None \<Rightarrow> NoIndicators),
         category = (if conf \<ge> 0.6 then cat else ''other''),
         suggestedAction = (if conf \<ge> 0.85 then hide else if conf \<ge> 0.6 then review
                            else keep)\<rparr>)"

definition detectNonFood ::
  "string \<Rightarrow> real option \<Rightarrow> detect_context option \<Rightarrow> NonFoodDetectionResult" where
  "detectNonFood itemName price ctx =
     (let name = trim (toLowerCase itemName)
      in case first_definite name of
           Some cat \<Rightarrow>
             \<lparr>isNonFood = True, confidence = 0.95, reason = Definite cat,
              category = cat, suggestedAction = hide\<rparr>
         | None \<Rightarrow>
             if list_ex (\<lambda>p. test p name) storeServices then
               \<lparr>isNonFood = True, confidence = 0.9, reason = StoreService,
                category = ''service'', suggestedAction = hide\<rparr>
             else
               (let st = layer5 ctx (layer4 name (layer3 name (0, ''other'', None)))
                in case price of
                     None \<Rightarrow> finish (layer7 name st)
                   | Some p \<Rightarrow>
                       if p < 0 then
                         \<lparr>isNonFood = True, confidence = 0.95, reason = NegativePrice,
                          category = ''discount'', suggestedAction = hide\<rparr>
                       else finish (layer7 name (layer6 p st))))"

section \<open>Numbers (IEEE 754 binary64)\<close>

text \<open>
  A JavaScript number is a double: a finite value, an infinity or NaN. A finite double is
  given by its value (the two zeros are one value: they are equal in every comparison, and
  \<open>validateAIResult\<close> only adds, subtracts, multiplies and compares). An operation on finite
  doubles gives the exact result rounded to the nearest double, a tie to the even significand,
  and an infinity when the rounded value reaches \<open>2 ^ 1024\<close>.
\<close>

datatype double = Finite real | PosInf | NegInf | NaN

text \<open>
  The exponent \<open>e\<close> of a positive real, \<open>2 ^ e \<le> x < 2 ^ (e + 1)\<close>, from the number of
  binary digits of a natural number (\<open>floorlog 2\<close>).
\<close>

definition floor_log2 :: "real \<Rightarrow> int" where
  "floor_log2 x =
     (if 1 \<le> x then int (floorlog 2 (nat \<lfloor>x\<rfloor>)) - 1
      else - int (floorlog 2 (nat (\<lceil>1 / x\<rceil> - 1))))"

definition pow2 :: "int \<Rightarrow> real" where
  "pow2 e = (if 0 \<le> e then 2 ^ nat e else 1 / 2 ^ nat (- e))"

definition round_half_even :: "real \<Rightarrow> int" where
  "round_half_even y =
     (let f = \<lfloor>y\<rfloor>; d = y - of_int f
      in if d < 1 / 2 then f else if 1 / 2 < d then f + 1 else if even f then f else f + 1)"

text \<open>
  Rounding to binary64: 53 significant bits, the exponent not below \<open>-1022\<close> (below it the
  doubles are the multiples of \<open>2 ^ -1074\<close>).
\<close>

definition fl :: "real \<Rightarrow> double" where
  "fl x =
     (if x = 0 then Finite 0
      else
        (let a = \<bar>x\<bar>;
             e = max (floor_log2 a) (- 1022);
             q = pow2 (e - 52);
             y = of_int (round_half_even (a / q)) * q
         in if 2 ^ 1024 \<le> y then (if 0 < x then PosInf else NegInf)
            else Finite (if 0 < x then y else - y)))"

fun d_neg :: "double \<Rightarrow> double" where
  "d_neg (Finite a) = Finite (- a)"
| "d_neg PosInf = NegInf"
| "d_neg NegInf = PosInf"
| "d_neg NaN = NaN"

fun d_abs :: "double \<Rightarrow> double" where
  "d_abs (Finite a) = Finite \<bar>a\<bar>"
| "d_abs PosInf = PosInf"
| "d_abs NegInf = PosInf"
| "d_abs NaN = NaN"

fun d_add :: "double \<Rightarrow> double \<Rightarrow> double" where
  "d_add (Finite a) (Finite b) = fl (a + b)"
| "d_add NaN y = NaN"
| "d_add x NaN = NaN"
| "d_add PosInf NegInf = NaN"
| "d_add NegInf PosInf = NaN"
| "d_add PosInf y = PosInf"
| "d_add x PosInf = PosInf"
| "d_add NegInf y = NegInf"
| "d_add x NegInf = NegInf"

definition d_sub :: "double \<Rightarrow> double \<Rightarrow> double" where
  "d_sub x y = d_add x (d_neg y)"

fun d_mul :: "double \<Rightarrow> double \<Rightarrow> double" where
  "d_mul (Finite a) (Finite b) = fl (a * b)"
| "d_mul NaN y = NaN"
| "d_mul x NaN = NaN"
| "d_mul PosInf (Finite b) = (if b = 0 then NaN else if 0 < b then PosInf else NegInf)"
| "d_mul NegInf (Finite b) = (if b = 0 then NaN else if 0 < b then NegInf else PosInf)"
| "d_mul (Finite a) PosInf = (if a = 0 then NaN else if 0 < a then PosInf else NegInf)"
| "d_mul (Finite a) NegInf = (if a = 0 then NaN else if 0 < a then NegInf else PosInf)"
| "d_mul PosInf PosInf = PosInf"
| "d_mul NegInf NegInf = PosInf"
| "d_mul PosInf NegInf = NegInf"
| "d_mul NegInf PosInf = NegInf"

text \<open>\<open>x < y\<close>; every comparison with NaN is false.\<close>

fun d_less :: "double \<Rightarrow> double \<Rightarrow> bool" where
  "d_less (Finite a) (Finite b) = (a < b)"
| "d_less NaN y = False"
| "d_less x NaN = False"
| "d_less x NegInf = False"
| "d_less PosInf y = False"
| "d_less NegInf y = True"
| "d_less x PosInf = True"

text \<open>\<open>Math.min\<close> and \<open>Math.max\<close> of two numbers: NaN when one of them is NaN.\<close>

definition d_min :: "double \<Rightarrow> double \<Rightarrow> double" where
  "d_min x y = (if x = NaN \<or> y = NaN then NaN else if d_less y x then y else x)"

definition d_max :: "double \<Rightarrow> double \<Rightarrow> double" where
  "d_max x y = (if x = NaN \<or> y = NaN then NaN else if d_less x y then y else x)"

section \<open>validateAIResult (src/app/lib/aiReceiptParser.ts)\<close>

text \<open>
  The argument of \<open>validateAIResult\<close> is what \<open>JSON.parse\<close> returns: any JSON value, its
  numbers doubles. An object is the list of its members, each key once. Reading a property of
  \<open>null\<close> throws a TypeError; reading one of a number, a string, a boolean or an array gives
  \<open>undefined\<close> for every property name the function reads.
\<close>

datatype json =
    JNull | JBool bool | JNum double | JStr string | JArr "json list"
  | JObj "(string \<times> json) list"

datatype js_error = TypeError

fun member :: "json \<Rightarrow> string \<Rightarrow> json option" where
  "member (JObj kvs) k = map_of kvs k"
| "member v k = None"

fun truthy :: "json option \<Rightarrow> bool" where
  "truthy None = False"
| "truthy (Some JNull) = False"
| "truthy (Some (JBool b)) = b"
| "truthy (Some (JNum x)) = (x \<noteq> Finite 0 \<and> x \<noteq> NaN)"
| "truthy (Some (JStr s)) = (s \<noteq> [])"
| "truthy (Some (JArr vs)) = True"
| "truthy (Some (JObj kvs)) = True"

text \<open>
  \<open>String(v)\<close> and \<open>Number(v)\<close>. The conversions of the language for the values that are
  not written out here (a number printed as a string; a string, an array or an object
  read as a number) are parameters of the model.
\<close>

fun js_String :: "(json \<Rightarrow> string) \<Rightarrow> json option \<Rightarrow> string" where
  "js_String conv None = ''undefined''"
| "js_String conv (Some (JStr s)) = s"
| "js_String conv (Some JNull) = ''null''"
| "js_String conv (Some (JBool b)) = (if b then ''true'' else ''false'')"
| "js_String conv (Some v) = conv v"

fun js_Number :: "(json \<Rightarrow> double) \<Rightarrow> json option \<Rightarrow> double" where
  "js_Number conv None = NaN"
| "js_Number conv (Some (JNum x)) = x"
| "js_Number conv (Some JNull) = Finite 0"
| "js_Number conv (Some (JBool b)) = Finite (if b then 1 else 0)"
| "js_Number conv (Some v) = conv v"

definition AI_PRODUCT_CATEGORIES :: "string list" where
  "AI_PRODUCT_CATEGORIES =
     [''Groceries'', ''Dairy & Eggs'', ''Meat & Seafood'', ''Fresh Produce'', ''Bakery'',
      ''Frozen Foods'', ''Pantry & Dry Goods'', ''Snacks & Candy'', ''Beverages'',
      ''Health & Beauty'', ''Personal Care'', ''Household & Cleaning'', ''Baby & Kids'',
      ''Pet Supplies'', ''Pharmacy'', ''Electronics'', ''Clothing'', ''Home & Garden'',
      ''Automotive'', ''Office Supplies'', ''Other'']"

record AIItem =
  ai_name :: string
  ai_enhancedName :: string
  ai_category :: string
  ai_price :: double
  ai_confidence :: double

record AIMetadata =
  md_date :: "json option"
  md_location :: "json option"
  md_storeFormat :: json
  md_itemCount :: nat

record AIParsingResult =
  ai_storeName :: json
  ai_items :: "AIItem list"
  ai_total :: double
  ai_metadata :: AIMetadata

text \<open>The filter: a name, an enhanced name, and a price that is a number above 0.\<close>

definition keeps :: "json \<Rightarrow> bool" where
  "keeps item =
     (truthy (member item ''name'') \<and> truthy (member item ''enhancedName'')
      \<and> (case member item ''price'' of Some (JNum p) \<Rightarrow> d_less (Finite 0) p | _ \<Rightarrow> False))"

text \<open>
  \<open>Number(item.confidence) || 0.7\<close> is 0.7 when the number is 0 or NaN; the literal 0.7 is
  the double nearest to it.
\<close>

definition clean_item :: "(json \<Rightarrow> string) \<Rightarrow> (json \<Rightarrow> double) \<Rightarrow> json \<Rightarrow> AIItem" where
  "clean_item sconv nconv item =
     \<lparr>ai_name = trim (js_String sconv (member item ''name'')),
      ai_enhancedName = trim (js_String sconv (member item ''enhancedName'')),
      ai_category =
        (case member item ''category'' of
           Some (JStr c) \<Rightarrow> if c \<in> set AI_PRODUCT_CATEGORIES then c else ''Other''
         | _ \<Rightarrow> ''Other''),
      ai_price = js_Number nconv (member item ''price''),
      ai_confidence =
        d_max (Finite 0)
          (d_min (Finite 1)
             (if js_Number nconv (member item ''confidence'') = Finite 0
                 \<or> js_Number nconv (member item ''confidence'') = NaN
              then fl (7 / 10) else js_Number nconv (member item ''confidence'')))\<rparr>"

text \<open>\<open>result.items.reduce((sum, item) => sum + item.price, 0)\<close>\<close>

definition itemsSum :: "AIItem list \<Rightarrow> double" where
  "itemsSum items = foldl (\<lambda>sum item. d_add sum (ai_price item)) (Finite 0) items"

text \<open>\<open>typeof aiResult.total === 'number' ? aiResult.total : 0\<close>\<close>

definition declared_total :: "json \<Rightarrow> double" where
  "declared_total aiResult =
     (case member aiResult ''total'' of Some (JNum t) \<Rightarrow> t | _ \<Rightarrow> Finite 0)"

text \<open>\<open>aiResult.metadata?.field\<close>\<close>

definition metadata_field :: "json \<Rightarrow> string \<Rightarrow> json option" where
  "metadata_field aiResult k =
     (case member aiResult ''metadata'' of
        None \<Rightarrow> None
      | Some JNull \<Rightarrow> None
      | Some m \<Rightarrow> member m k)"

definition validateAIResult ::
  "(json \<Rightarrow> string) \<Rightarrow> (json \<Rightarrow> double) \<Rightarrow> json \<Rightarrow> js_error + AIParsingResult" where
  "validateAIResult sconv nconv aiResult =
     (if aiResult = JNull then Inl TypeError
      else
        (let storeName0 = (case member aiResult ''storeName'' of
                             None \<Rightarrow> JStr ''Unknown Store''
                           | Some v \<Rightarrow> if truthy (Some v) then v else JStr ''Unknown Store'');
             total0 = declared_total aiResult;
             storeFormat0 = (case metadata_field aiResult ''storeFormat'' of
                               None \<Rightarrow> JStr ''Unknown''
                             | Some v \<Rightarrow> if truthy (Some v) then v else JStr ''Unknown'');
             raw = (case member aiResult ''items'' of Some (JArr vs) \<Rightarrow> vs | _ \<Rightarrow> [])
         in if JNull \<in> set raw then Inl TypeError
            else
              (let items = map (clean_item sconv nconv) (filter keeps raw);
                   s = itemsSum items
               in Inr \<lparr>ai_storeName = storeName0,
                       ai_items = items,
                       ai_total =
                         (if total0 = Finite 0
                             \<or> d_less (d_mul s (Finite (1 / 2))) (d_abs (d_sub total0 s))
                          then s else total0),
                       ai_metadata =
                         \<lparr>md_date = metadata_field aiResult ''date'',
                          md_location = metadata_field aiResult ''location'',
                          md_storeFormat = storeFormat0,
                          md_itemCount = length items\<rparr>\<rparr>)))"

text \<open>
  Replies of the AI as \<open>JSON.parse\<close> gives them; a number written in decimal is the double
  nearest to it. The prices are 0.7, -0.1 and 0.1 with the total 1.2; twice 1e308 with the
  total 3; and 2 with the total 0.9999999999999999.
\<close>

definition ai_item :: "string \<Rightarrow> string \<Rightarrow> real \<Rightarrow> json" where
  "ai_item nm enhanced price =
     JObj [(''name'', JStr nm), (''enhancedName'', JStr enhanced), (''price'', JNum (fl price))]"



definition tie_reply :: json where
  "tie_reply =
     JObj [(''storeName'', JStr ''SAFEWAY''),
           (''items'', JArr [ai_item ''MILK'' ''Milk'' 2]),
           (''total'', JNum (fl (9999999999999999 / 10 ^ 16)))]"

section \<open>isOCRTextGarbled (src/unnamed/part\_001)\<close>

definition rx :: "re list \<Rightarrow> regexp" where
  "rx rs = (False, seqs rs)"

definition consonants :: "atom list" where
  "consonants = map C ''BCDFGHJKLMNPQRSTVWXYZ''"

text \<open>\<open>[A-Z][a-z]{1,2}\<close> and \<open>\d+\.\d{2}\<close>\<close>

definition fragment :: re where
  "fragment = Seq (One [Up]) (Rep 1 (Some 2) (One [Lo]))"

definition amount :: re where
  "amount = seqs [Plus dig, Lit ''.'', Rep 2 (Some 2) dig]"

definition extremeGarblingIndicators :: "regexp list" where
  "extremeGarblingIndicators =
   [rx [Rep 3 None (One [Up]), ws1, Rep 3 None (One [Up]), ws1, Rep 3 None (One [Up])],
    rx [WordB, fragment, ws1, fragment, ws1, fragment, ws1, fragment],
    rx [Bol, Plus (One [Up, S]), Rep 10 None (One [Up])],
    rx [Plus (One [Up]), Rep 3 None (NoneOf [Up, Lo, S, D]), One [Up]],
    rx [WordB, Rep 5 None (One consonants), WordB],
    rx [Bol, words [''LLL'', ''RRR'', ''NNN'', ''DDD'', ''TTT'', ''SSS''], One [S]],
    rx [Rep 2 None (One [Up]), ws1, Rep 2 None (One [Up]), ws1, Rep 2 None (One [Up]), ws1,
        Rep 2 None (One [Up]), ws1, Rep 2 None (One [Up])]]"

definition validReceiptPatterns :: "regexp list" where
  "validReceiptPatterns =
   [rx [Bol, amount, Eol],
    rx [Bol, Plus (One [Up, S]), ws1, amount, Eol],
    rx [Bol, words [''SUBTOTAL'', ''TAX'', ''TOTAL'', ''Order'', ''Sales'', ''Grand''], ws1,
        amount],
    rx [Bol, words [''Credit'', ''Cash'', ''Change'', ''Payment''], One [S]],
    rx [Bol, amount, ws1, Lit ''lb'', ws1, Lit ''@''],
    rx [Bol, Lit ''Store'', ws1, Opt (Lit ''#''), Plus dig],
    rx [Bol, Rep 3 None dig, Plus (One [S, C (CHR ''-'')]), Plus (One [Up, Lo, S])],
    i_rx [Bol, Lit ''Thank'', ws1, Lit ''you''],
    rx [Bol, Lit ''Items:'', ws1, Plus dig],
    i_rx [Bol, alts [Lit ''SAFEWAY'', Lit ''PUBLIX'', Lit ''KROGER'', Lit ''TARGET'',
                    Lit ''WALMART'', seqs [Lit ''WHOLE'', ws1, Lit ''FOODS''],
                    Lit ''TRADER'', Lit ''COSTCO'', Lit ''SPROUTS'']],
    rx [Bol, Rep 5 None (One [Up, S]), ws1, amount, ws0,
        Opt (One [C (CHR ''S''), C (CHR ''T'')]), Eol],
    i_rx [Bol, alts [Lit ''GROCERY'', Lit ''PRODUCE'', Lit ''REFRIG'', Lit ''FROZEN'',
                    seqs [Lit ''BAKED'', ws1, Lit ''GOODS''],
                    seqs [Lit ''GEN'', ws1, Lit ''MERCHANDISE'']]],
    rx [Bol, Plus (One [W]), ws1, Plus (One [W]), ws1, Plus (One [W]), ws1, amount, Eol]]"

definition isValidReceiptLine :: "string \<Rightarrow> bool" where
  "isValidReceiptLine cleanLine = list_ex (\<lambda>p. test p cleanLine) validReceiptPatterns"

text \<open>\<open>[a-zA-Z]{1,2}\<close> between two word boundaries\<close>

definition tiny_word :: re where
  "tiny_word = seqs [WordB, Rep 1 (Some 2) (One [Lo, Up]), WordB]"

definition known_words :: "string list" where
  "known_words =
     [''FRESH'', ''ORGANIC'', ''FROZEN'', ''BREAD'', ''MILK'', ''EGGS'', ''CHEESE'', ''MEAT'',
      ''CHICKEN'', ''BEEF'', ''APPLE'', ''BANANA'', ''POTATO'', ''CARROT'', ''TOMATO'',
      ''LETTUCE'', ''PASTA'', ''RICE'', ''BUTTER'', ''JUICE'', ''SOUP'', ''CEREAL'',
      ''YOGURT'', ''SAFEWAY'', ''PUBLIX'', ''KROGER'', ''MUSTARD'', ''BUTTER'', ''LIME'',
      ''LASTING'', ''MERCHANDISE'', ''TOOTHPASTE'', ''POTATOES'']"

definition isGarbled :: "string \<Rightarrow> bool" where
  "isGarbled cleanLine =
     (test (rx [Bol, Plus (One [Up, S]), Rep 6 None (One [Up])]) cleanLine
      \<or> test (rx [tiny_word, Star Dot, tiny_word, Star Dot, tiny_word, Star Dot, tiny_word])
           cleanLine
      \<or> test (rx [Plus (One [Up]), Rep 2 None (NoneOf [Up, Lo, S, D])]) cleanLine
      \<or> test (rx [WordB, fragment, ws1, fragment, ws1, fragment]) cleanLine
      \<or> (length cleanLine > 8
          \<and> \<not> test (rx [One (map C ''aeiouAEIOU'')]) cleanLine
          \<and> test (rx [Rep 4 None (One [Up, Lo])]) cleanLine
          \<and> \<not> test (rx [Bol, Plus dig]) cleanLine
          \<and> \<not> test (rx [Bol, Plus (NoneOf [Up, Lo]), Eol]) cleanLine)
      \<or> test (rx [Rep 4 None (One consonants)]) cleanLine
      \<or> test (rx [Bol, words [''LLL'', ''RRR'', ''NNN'', ''DDD'', ''TTT'', ''SSS'', ''MMM'',
                               ''PPP''], One [S]]) cleanLine
      \<or> (length cleanLine > 15
          \<and> test (rx [Bol, Plus (One [Up, S]), Eol]) cleanLine
          \<and> \<not> test (rx [WordB, words known_words, WordB]) cleanLine)
      \<or> test (rx [WordB, words [''WRC'', ''TENA'', ''RETRANRAN'', ''VEATE'', ''NWN'', ''BERR'',
                                 ''RETR'', ''LER'', ''SELLER''], WordB]) cleanLine)"

text \<open>\<open>text.split('\n').filter(line => line.trim().length > 0)\<close>\<close>

definition nonempty_lines :: "string \<Rightarrow> string list" where
  "nonempty_lines text = filter (\<lambda>line. length (trim line) > 0) (split_on (CHR 0x0A) text)"

text \<open>The matches of the extreme indicators in the text with its newlines made spaces.\<close>

definition extremeGarblingCount :: "string \<Rightarrow> nat" where
  "extremeGarblingCount text =
     (let entireText = replace_all (False, Lit [CHR 0x0A]) (\<lambda>m. '' '') text
      in fold (\<lambda>pattern n. n + match_count pattern entireText) extremeGarblingIndicators 0)"

text \<open>The loop over the lines: the numbers of garbled lines and of valid receipt lines.\<close>

definition count_line :: "string \<Rightarrow> nat \<times> nat \<Rightarrow> nat \<times> nat" where
  "count_line line counts =
     (let cleanLine = trim line
      in if length cleanLine < 3 then counts
         else if isValidReceiptLine cleanLine then (fst counts, snd counts + 1)
         else if isGarbled cleanLine then (fst counts + 1, snd counts)
         else counts)"

definition garbledLines :: "string \<Rightarrow> nat" where
  "garbledLines text = fst (fold count_line (nonempty_lines text) (0, 0))"

definition validReceiptLines :: "string \<Rightarrow> nat" where
  "validReceiptLines text = snd (fold count_line (nonempty_lines text) (0, 0))"

definition isOCRTextGarbled :: "string \<Rightarrow> bool" where
  "isOCRTextGarbled text =
     (if extremeGarblingCount text > 5 then True
      else (real (garbledLines text) > real (length (nonempty_lines text)) * 0.15
            \<or> real (validReceiptLines text) < real (length (nonempty_lines text)) * 0.1
            \<or> extremeGarblingCount text > 2))"

section \<open>enhanceProductName (src/app/lib/productNameEnhancer.ts)\<close>

text \<open>
  The three tables, in the order of their object literals. A key of \<open>PRODUCT_CATEGORIES\<close>
  is the source of a regular expression, an alternative of keywords; the model keeps the
  list of the keywords.
\<close>

definition STORE_PATTERNS :: "(string \<times> (string \<times> string) list) list" where
  "STORE_PATTERNS =
   [(''SAFEWAY'',
     [(''G-P'', ''Grey Poupon''), (''TATES'', ''Tate'' @ [CHR 0x27] @ ''s''),
      (''SPINDRIFT'', ''Spindrift''), (''LND O LKS'', ''Land O Lakes''),
      (''AMYS'', ''Amy'' @ [CHR 0x27] @ ''s''), (''SIG'', ''Signature''), (''WT'', ''Weight''),
      (''CRV'', ''California Redemption Value''), (''GALBANI'', ''Galbani''),
      (''PUFFS'', ''Puffs''), (''BOUNCE'', ''Bounce''),
      (''PRECIOUS GALBANI'', ''Precious Galbani''), (''WHOLE GRAIN'', ''Whole Grain'')]),
    (''WALMART'',
     [(''GV'', ''Great Value''), (''MM'', ''Marketside''), (''EQ'', ''Equate''),
      (''MV'', ''Member'' @ [CHR 0x27] @ ''s Mark''), (''HRI'', ''Hormel''),
      (''CL'', ''Classic''), (''CHS'', ''Cheese''), (''PEP'', ''Pepperoni''),
      (''USG'', ''Usage''), (''SC'', ''South Carolina''), (''BCN'', ''Bacon''),
      (''CHDDR'', ''Cheddar''), (''ABF'', ''ABF''), (''THINBRST'', ''Thin Crust''),
      (''DV'', ''Dove''), (''RSE'', ''Rose''), (''LT'', ''Light''), (''SWT'', ''Sweet''),
      (''BUTTR'', ''Butter''), (''AVO'', ''Avocado''), (''VERDE'', ''Verde''),
      (''BTS'', ''Boots''), (''BLON'', ''Blonde''), (''TR'', ''Trail''), (''HS'', ''House''),
      (''FRM'', ''From''), (''HNY'', ''Honey''), (''GRMS'', ''Grams''),
      (''ENTYSAS'', ''Entity SAS''), (''PAL ORI'', ''Palmolive Original''),
      (''TIDEHEORG'', ''Tide HE Original''), (''CHRMNSF'', ''Charmin Soft''),
      (''WHT GRAN SUG'', ''White Granulated Sugar''), (''ZPR SANDW'', ''Zipper Sandwich''),
      (''POUF'', ''Pouf''), (''PALOMA'', ''Paloma''),
      (''CCSERVINGBWL'', ''CC Serving Bowl''), (''FUSILL'', ''Fusilli''),
      (''MS10X14BOARD'', ''MS 10x14 Board''), (''ELD-HARV'', ''Eldorado Harvest''),
      (''CHK BST BNLS'', ''Chicken Breast Boneless''), (''MIX VEG'', ''Mixed Vegetables'')]),
    (''TARGET'',
     [(''UP&UP'', ''Up & Up''), (''GH'', ''Good & Gather''), (''MW'', ''Market Pantry'')])]"

definition COMMON_ABBREVIATIONS :: "(string \<times> string) list" where
  "COMMON_ABBREVIATIONS =
   [(''CK'', ''Cookies''), (''BK'', ''Book''), (''PK'', ''Pack''), (''LB'', ''Pound''),
    (''OZ'', ''Ounce''), (''FL'', ''Fluid''), (''CT'', ''Count''), (''LRG'', ''Large''),
    (''MED'', ''Medium''), (''SM'', ''Small''), (''REG'', ''Regular''), (''LT'', ''Light''),
    (''FF'', ''Fat Free''), (''LF'', ''Low Fat''), (''WHL'', ''Whole''),
    (''ORG'', ''Organic''), (''FRZ'', ''Frozen''), (''FRS'', ''Fresh''), (''DRY'', ''Dry''),
    (''LIQ'', ''Liquid''), (''PWD'', ''Powder''), (''CONC'', ''Concentrate''),
    (''UNSLTD'', ''Unsalted''), (''SLTD'', ''Salted''), (''SW'', ''Sweet''),
    (''UNSWT'', ''Unsweetened''), (''VAN'', ''Vanilla''), (''CHOC'', ''Chocolate''),
    (''STR'', ''Strawberry''), (''RSP'', ''Raspberry''), (''LMN'', ''Lemon''),
    (''LIM'', ''Lime''), (''ORNG'', ''Orange''), (''APL'', ''Apple''), (''BAN'', ''Banana''),
    (''GRP'', ''Grape''), (''BLU'', ''Blueberry''), (''BLK'', ''Black''),
    (''WHT'', ''White''), (''RED'', ''Red''), (''GRN'', ''Green''), (''YLW'', ''Yellow'')]"

definition PRODUCT_CATEGORIES :: "(string list \<times> string) list" where
  "PRODUCT_CATEGORIES =
   [([''MUSTARD'', ''KETCHUP'', ''MAYO'', ''SAUCE''], ''Condiments''),
    ([''COOKIE'', ''CAKE'', ''BREAD'', ''BAGEL'', ''MUFFIN''], ''Bakery''),
    ([''MILK'', ''CHEESE'', ''BUTTER'', ''YOGURT'', ''CREAM''], ''Dairy''),
    ([''CHICKEN'', ''BEEF'', ''PORK'', ''FISH'', ''MEAT''], ''Meat''),
    ([''APPLE'', ''BANANA'', ''ORANGE'', ''POTATO'', ''ONION'', ''CARROT''], ''Produce''),
    ([''SOAP'', ''SHAMPOO'', ''TOOTHPASTE'', ''DETERGENT'', ''CLEANER''],
     ''Personal Care & Cleaning''),
    ([''SODA'', ''JUICE'', ''WATER'', ''COFFEE'', ''TEA''], ''Beverages''),
    ([''PASTA'', ''RICE'', ''CEREAL'', ''CRACKERS'', ''CHIPS''], ''Pantry''),
    ([''ICE CREAM'', ''PIZZA'', ''VEGETABLES'', ''FRUIT''], ''Frozen'')]"

record EnhancedProduct =
  ep_originalName :: string
  ep_enhancedName :: string
  ep_category :: "string option"
  ep_confidence :: real

text \<open>\<open>new RegExp(`\\b${abbrev}\\b`, 'gi')\<close> and \<open>new RegExp(keywords, 'i')\<close>\<close>

definition abbrev_rx :: "string \<Rightarrow> regexp" where
  "abbrev_rx abbrev = (True, seqs [WordB, Lit abbrev, WordB])"

definition keyword_rx :: "string list \<Rightarrow> regexp" where
  "keyword_rx keywords = (True, words keywords)"

text \<open>
  The first clean-up: trim, every run of white space becomes one space, every character
  other than a word character, white space, \<open>&\<close>, an apostrophe or a hyphen is removed,
  trim.
\<close>

definition clean_up :: "string \<Rightarrow> string" where
  "clean_up raw =
     trim (replace_all (False, NoneOf [W, S, C (CHR ''&''), C (CHR 0x27), C (CHR ''-'')])
             (\<lambda>m. [])
             (replace_all (False, ws1) (\<lambda>m. '' '') (trim raw)))"

text \<open>
  One step of the two loops over abbreviations: when the expression matches, every match
  is replaced by the expansion and the confidence grows by \<open>bonus\<close>.
\<close>

definition expand :: "real \<Rightarrow> string \<times> string \<Rightarrow> string \<times> real \<Rightarrow> string \<times> real" where
  "expand bonus entry st =
     (if test (abbrev_rx (fst entry)) (fst st)
      then (replace_all (abbrev_rx (fst entry)) (\<lambda>m. snd entry) (fst st), snd st + bonus)
      else st)"

definition store_abbreviations :: "string \<Rightarrow> (string \<times> string) list" where
  "store_abbreviations store =
     (case map_of STORE_PATTERNS (toUpperCase store) of Some ps \<Rightarrow> ps | None \<Rightarrow> [])"

text \<open>The name and the confidence after the store patterns and the common abbreviations.\<close>

definition expanded :: "string \<Rightarrow> string \<Rightarrow> string \<times> real" where
  "expanded raw store =
     fold (expand 0.05) COMMON_ABBREVIATIONS
       (fold (expand 0.1) (store_abbreviations store) (clean_up raw, 0.7))"

text \<open>The loop over the categories: every matching row sets the category.\<close>

definition categorize :: "string \<Rightarrow> string option \<times> real \<Rightarrow> string option \<times> real" where
  "categorize nm st =
     fold (\<lambda>row st. if test (keyword_rx (fst row)) nm then (Some (snd row), snd st + 0.1)
                     else st)
          PRODUCT_CATEGORIES st"

definition capitalize :: "string \<Rightarrow> string" where
  "capitalize word = (case word of [] \<Rightarrow> [] | c # cs \<Rightarrow> upper_char c # toLowerCase cs)"

definition join :: "string list \<Rightarrow> string" where
  "join ws = join_with '' '' ws"

definition title_case :: "string \<Rightarrow> string" where
  "title_case nm =
     trim (replace_all (False, ws1) (\<lambda>m. '' '')
             (join (map capitalize (split_on (CHR '' '') nm))))"

definition enhanceProductName :: "string \<Rightarrow> string \<Rightarrow> EnhancedProduct" where
  "enhanceProductName raw store =
     (let ex = expanded raw store;
          ct = categorize (fst ex) (None, snd ex)
      in \<lparr>ep_originalName = raw,
          ep_enhancedName = title_case (fst ex),
          ep_category = fst ct,
          ep_confidence = min (snd ct) 1.0\<rparr>)"

text \<open>
  The category as the specification words it: that of the first row of the table with a
  keyword in the name.
\<close>

definition first_match_category :: "string \<Rightarrow> string option" where
  "first_match_category nm =
     map_option snd (find (\<lambda>row. test (keyword_rx (fst row)) nm) PRODUCT_CATEGORIES)"

text \<open>What the function does: the last such row.\<close>

definition last_match_category :: "string \<Rightarrow> string option" where
  "last_match_category nm =
     (case filter (\<lambda>row. test (keyword_rx (fst row)) nm) PRODUCT_CATEGORIES of
        [] \<Rightarrow> None
      | r # rs \<Rightarrow> Some (snd (last (r # rs))))"

text \<open>
  A name is settled for a store when every abbreviation of the store's table or of the
  common table that occurs in it as a whole word has an expansion that spells the
  abbreviation itself, in the same letters whatever their case (as \<open>WHOLE GRAIN\<close> and
  \<open>Whole Grain\<close>).
\<close>

definition settled :: "string \<Rightarrow> string \<Rightarrow> bool" where
  "settled nm store =
     list_all (\<lambda>entry. test (abbrev_rx (fst entry)) nm
                        \<longrightarrow> toLowerCase (snd entry) = toLowerCase (fst entry))
       (store_abbreviations store @ COMMON_ABBREVIATIONS)"

subsection \<open>What the steps of the enhancer compute\<close>

text \<open>
  The functions and predicates below describe the steps of \<open>enhanceProductName\<close> without
  regular expressions; the last section proves that they do. \<open>squeeze\<close> makes every run of
  white space one space (\<open>b\<close>: the character before is white space), \<open>allowed\<close> are the
  characters that the clean-up keeps, and \<open>recase\<close> is the title case of the words between
  spaces (\<open>b\<close>: the character is the first of a word).
\<close>

primrec squeeze :: "bool \<Rightarrow> string \<Rightarrow> string" where
  "squeeze b [] = []"
| "squeeze b (c # cs) =
     (if is_space c then (if b then squeeze True cs else CHR '' '' # squeeze True cs)
      else c # squeeze False cs)"

definition allowed :: "char \<Rightarrow> bool" where
  "allowed c = (is_word c \<or> is_space c \<or> c = CHR ''&'' \<or> c = CHR 0x27 \<or> c = CHR ''-'')"

primrec recase :: "bool \<Rightarrow> string \<Rightarrow> string" where
  "recase b [] = []"
| "recase b (c # cs) =
     (if c = CHR '' '' then CHR '' '' # recase True cs
      else (if b then upper_char c else lower_char c) # recase False cs)"

text \<open>
  A string in which every white space is a single space (\<open>b\<close>: the character before is a
  space), and a character that the clean-up keeps and that is no white space but the space.
\<close>

primrec spaced :: "bool \<Rightarrow> string \<Rightarrow> bool" where
  "spaced b [] = True"
| "spaced b (c # cs) =
     (if is_space c then \<not> b \<and> c = CHR '' '' \<and> spaced True cs else spaced False cs)"

definition plain :: "char \<Rightarrow> bool" where
  "plain c = (allowed c \<and> (is_space c \<longrightarrow> c = CHR '' ''))"

text \<open>
  An abbreviation occurs at a position as a whole word: a word boundary, the letters of the
  abbreviation in any case, a word boundary. \<open>after\<close> is the position behind it. Two
  positions are the same up to the case of the letters.
\<close>

definition boundary :: "pos \<Rightarrow> bool" where
  "boundary q = (word_before q \<noteq> word_after q)"

definition after :: "string \<Rightarrow> pos \<Rightarrow> pos" where
  "after k q =
     (if k = [] then fst q else Some (snd q ! (length k - 1)), drop (length k) (snd q))"

definition occurs_at :: "string \<Rightarrow> pos \<Rightarrow> bool" where
  "occurs_at k q =
     (boundary q \<and> length k \<le> length (snd q)
      \<and> toLowerCase (take (length k) (snd q)) = toLowerCase k \<and> boundary (after k q))"

definition same_pos :: "pos \<Rightarrow> pos \<Rightarrow> bool" where
  "same_pos q q' =
     (map_option lower_char (fst q) = map_option lower_char (fst q')
      \<and> toLowerCase (snd q) = toLowerCase (snd q'))"

section \<open>ProductNameCleaner (src/unnamed/part\_006)\<close>





















section \<open>generateUniversalGroceryReceipt (src/unnamed/part\_001)\<close>




















section \<open>extractTextFromImage (src/unnamed/part\_001)\<close>







section \<open>Evaluation on literals\<close>

text \<open>
  The kind of every character that occurs in the examples below, and the other case of
  every letter, as rewrite rules: with them the simplifier evaluates the functions above
  on string literals.
\<close>

lemma kind_table:
  "kind (CHR ''a'') = Lower" "kind (CHR ''b'') = Lower" "kind (CHR ''c'') = Lower"
  "kind (CHR ''d'') = Lower" "kind (CHR ''e'') = Lower" "kind (CHR ''f'') = Lower"
  "kind (CHR ''g'') = Lower" "kind (CHR ''h'') = Lower" "kind (CHR ''i'') = Lower"
  "kind (CHR ''j'') = Lower" "kind (CHR ''k'') = Lower" "kind (CHR ''l'') = Lower"
  "kind (CHR ''m'') = Lower" "kind (CHR ''n'') = Lower" "kind (CHR ''o'') = Lower"
  "kind (CHR ''p'') = Lower" "kind (CHR ''q'') = Lower" "kind (CHR ''r'') = Lower"
  "kind (CHR ''s'') = Lower" "kind (CHR ''t'') = Lower" "kind (CHR ''u'') = Lower"
  "kind (CHR ''v'') = Lower" "kind (CHR ''w'') = Lower" "kind (CHR ''x'') = Lower"
  "kind (CHR ''y'') = Lower" "kind (CHR ''z'') = Lower" "kind (CHR ''A'') = Upper"
  "kind (CHR ''B'') = Upper" "kind (CHR ''C'') = Upper" "kind (CHR ''D'') = Upper"
  "kind (CHR ''E'') = Upper" "kind (CHR ''F'') = Upper" "kind (CHR ''G'') = Upper"
  "kind (CHR ''H'') = Upper" "kind (CHR ''I'') = Upper" "kind (CHR ''J'') = Upper"
  "kind (CHR ''K'') = Upper" "kind (CHR ''L'') = Upper" "kind (CHR ''M'') = Upper"
  "kind (CHR ''N'') = Upper" "kind (CHR ''O'') = Upper" "kind (CHR ''P'') = Upper"
  "kind (CHR ''Q'') = Upper" "kind (CHR ''R'') = Upper" "kind (CHR ''S'') = Upper"
  "kind (CHR ''T'') = Upper" "kind (CHR ''U'') = Upper" "kind (CHR ''V'') = Upper"
  "kind (CHR ''W'') = Upper" "kind (CHR ''X'') = Upper" "kind (CHR ''Y'') = Upper"
  "kind (CHR ''Z'') = Upper" "kind (CHR ''0'') = Digit" "kind (CHR ''1'') = Digit"
  "kind (CHR ''2'') = Digit" "kind (CHR ''3'') = Digit" "kind (CHR ''4'') = Digit"
  "kind (CHR ''5'') = Digit" "kind (CHR ''6'') = Digit" "kind (CHR ''7'') = Digit"
  "kind (CHR ''8'') = Digit" "kind (CHR ''9'') = Digit" "kind (CHR '' '') = Space"
  "kind (CHR 0x0A) = Space" "kind (CHR ''-'') = Other" "kind (CHR ''&'') = Other"
  "kind (CHR 0x27) = Other" "kind (CHR ''/'') = Other" "kind (CHR ''.'') = Other"
  "kind (CHR '','') = Other" "kind (CHR ''%'') = Other" "kind (CHR ''#'') = Other"
  "kind (CHR ''@'') = Other" "kind (CHR ''$'') = Other" "kind (CHR '':'') = Other"
  "kind (CHR ''='') = Other" "kind (CHR ''_'') = Other" "kind (CHR ''!'') = Other"
  "kind (CHR ''('') = Other" "kind (CHR '')'') = Other" "kind (CHR ''*'') = Other"
  "kind (CHR ''+'') = Other"
  by (simp_all add: kind_def lowers_def uppers_def digits_def spaces_def)

lemma other_case_table:
  "other_case (CHR ''a'') = CHR ''A''" "other_case (CHR ''b'') = CHR ''B''"
  "other_case (CHR ''c'') = CHR ''C''" "other_case (CHR ''d'') = CHR ''D''"
  "other_case (CHR ''e'') = CHR ''E''" "other_case (CHR ''f'') = CHR ''F''"
  "other_case (CHR ''g'') = CHR ''G''" "other_case (CHR ''h'') = CHR ''H''"
  "other_case (CHR ''i'') = CHR ''I''" "other_case (CHR ''j'') = CHR ''J''"
  "other_case (CHR ''k'') = CHR ''K''" "other_case (CHR ''l'') = CHR ''L''"
  "other_case (CHR ''m'') = CHR ''M''" "other_case (CHR ''n'') = CHR ''N''"
  "other_case (CHR ''o'') = CHR ''O''" "other_case (CHR ''p'') = CHR ''P''"
  "other_case (CHR ''q'') = CHR ''Q''" "other_case (CHR ''r'') = CHR ''R''"
  "other_case (CHR ''s'') = CHR ''S''" "other_case (CHR ''t'') = CHR ''T''"
  "other_case (CHR ''u'') = CHR ''U''" "other_case (CHR ''v'') = CHR ''V''"
  "other_case (CHR ''w'') = CHR ''W''" "other_case (CHR ''x'') = CHR ''X''"
  "other_case (CHR ''y'') = CHR ''Y''" "other_case (CHR ''z'') = CHR ''Z''"
  "other_case (CHR ''A'') = CHR ''a''" "other_case (CHR ''B'') = CHR ''b''"
  "other_case (CHR ''C'') = CHR ''c''" "other_case (CHR ''D'') = CHR ''d''"
  "other_case (CHR ''E'') = CHR ''e''" "other_case (CHR ''F'') = CHR ''f''"
  "other_case (CHR ''G'') = CHR ''g''" "other_case (CHR ''H'') = CHR ''h''"
  "other_case (CHR ''I'') = CHR ''i''" "other_case (CHR ''J'') = CHR ''j''"
  "other_case (CHR ''K'') = CHR ''k''" "other_case (CHR ''L'') = CHR ''l''"
  "other_case (CHR ''M'') = CHR ''m''" "other_case (CHR ''N'') = CHR ''n''"
  "other_case (CHR ''O'') = CHR ''o''" "other_case (CHR ''P'') = CHR ''p''"
  "other_case (CHR ''Q'') = CHR ''q''" "other_case (CHR ''R'') = CHR ''r''"
  "other_case (CHR ''S'') = CHR ''s''" "other_case (CHR ''T'') = CHR ''t''"
  "other_case (CHR ''U'') = CHR ''u''" "other_case (CHR ''V'') = CHR ''v''"
  "other_case (CHR ''W'') = CHR ''w''" "other_case (CHR ''X'') = CHR ''x''"
  "other_case (CHR ''Y'') = CHR ''y''" "other_case (CHR ''Z'') = CHR ''z''"
  by (simp_all add: other_case_def lowers_def uppers_def)

lemma rep_pos:
  "0 < k \<Longrightarrow>
   rep f k n m q =
     (if m = Some 0 then [q]
      else concat (map (\<lambda>q'. if 0 < n \<or> length (snd q') < length (snd q)
                               then rep f (k - 1) (n - 1) (map_option (\<lambda>x. x - 1) m) q'
                               else [])
                       (f q))
           @ (if n = 0 then [q] else []))"
  by (cases k) (simp_all cong: if_cong)

lemmas string_eval =
  kind_table other_case_table upper_char_def lower_char_def toUpperCase_def toLowerCase_def
  is_space_def is_word_def trim_def

lemmas regexp_eval =
  string_eval rep_pos atom_match_def word_before_def word_after_def test_def match_count_def
  replace_all_def seqs_def alts_def words_def Star_def Plus_def Opt_def sp_def ws0_def
  ws1_def dig_def

section \<open>Properties of the learning override\<close>

lemma toUpperCase_SAFEWAY: "toUpperCase ''SAFEWAY'' = ''SAFEWAY''"
  by (simp add: string_eval)

lemma getLearnedPatterns_updatePatterns:
  "toUpperCase store = toUpperCase (storeName entry) \<Longrightarrow>
   getLearnedPatterns (updatePatterns entry patterns) store (originalName entry)
     = Some (newEnhancedName entry)"
  by (simp add: getLearnedPatterns_def updatePatterns_def Let_def)

text \<open>
  C10. \<open>applyLearnedEnhancements\<close> returns one item for each item it is given, in the same
  order, and each returned item has the name of the item it comes from.
\<close>

theorem applyLearnedEnhancements_frame:
  "length (applyLearnedEnhancements allPatterns items store) = length items
   \<and> map learned_name (applyLearnedEnhancements allPatterns items store) = map item_name items"
proof -
  have "learned_name (learn_item p i) = item_name i" for p i
    by (simp add: learn_item_def Let_def split: option.splits)
  then show ?thesis
    by (simp add: applyLearnedEnhancements_def comp_def)
qed

text \<open>
  C1 (as amended). After \<open>updatePatterns\<close> has recorded a correction for the text
  \<open>LND O LKS BUTTER\<close> under the store \<open>SAFEWAY\<close>, \<open>applyLearnedEnhancements\<close> for that store
  returns every item of that name as follows: with the hide sentinel as the recorded value
  the item has \<open>shouldHide = true\<close> and \<open>wasLearned = true\<close>; with any other recorded
  value that is not the empty string the item has that value as its \<open>enhancedName\<close> and
  \<open>wasLearned = true\<close>. No classifier is consulted.
\<close>

theorem learning_override:
  assumes "storeName entry = ''SAFEWAY''"
    and "originalName entry = ''LND O LKS BUTTER''"
    and "i < length items"
    and "item_name (items ! i) = ''LND O LKS BUTTER''"
  shows "(newEnhancedName entry = ''__HIDDEN__'' \<longrightarrow>
            shouldHide (applyLearnedEnhancements (updatePatterns entry patterns) items
                          ''SAFEWAY'' ! i) = Some True
          \<and> wasLearned (applyLearnedEnhancements (updatePatterns entry patterns) items
                          ''SAFEWAY'' ! i))
       \<and> (newEnhancedName entry \<noteq> ''__HIDDEN__'' \<and> newEnhancedName entry \<noteq> [] \<longrightarrow>
            learned_enhancedName (applyLearnedEnhancements (updatePatterns entry patterns)
                                    items ''SAFEWAY'' ! i) = newEnhancedName entry
          \<and> wasLearned (applyLearnedEnhancements (updatePatterns entry patterns) items
                          ''SAFEWAY'' ! i))"
proof -
  have up: "toUpperCase ''SAFEWAY'' = toUpperCase (storeName entry)"
    using assms(1) by simp
  have look: "getLearnedPatterns (updatePatterns entry patterns) ''SAFEWAY''
                (item_name (items ! i)) = Some (newEnhancedName entry)"
    using getLearnedPatterns_updatePatterns [OF up, of patterns] assms(2,4) by simp
  have nth: "applyLearnedEnhancements (updatePatterns entry patterns) items ''SAFEWAY'' ! i
               = learn_item (getLearnedPatterns (updatePatterns entry patterns) ''SAFEWAY'')
                   (items ! i)"
    using assms(3) by (simp add: applyLearnedEnhancements_def)
  show ?thesis
    unfolding nth by (simp add: learn_item_def look Let_def)
qed

theorem learning_override_witness:
  "shouldHide (applyLearnedEnhancements (updatePatterns hide_correction Map.empty)
                 [\<lparr>item_name = ''MILK'', item_enhancedName = None\<rparr>,
                  \<lparr>item_name = ''LND O LKS BUTTER'', item_enhancedName = None\<rparr>]
                 ''SAFEWAY'' ! 1) = Some True
   \<and> wasLearned (applyLearnedEnhancements (updatePatterns hide_correction Map.empty)
                 [\<lparr>item_name = ''MILK'', item_enhancedName = None\<rparr>,
                  \<lparr>item_name = ''LND O LKS BUTTER'', item_enhancedName = None\<rparr>]
                 ''SAFEWAY'' ! 1)
   \<and> learned_enhancedName
         (applyLearnedEnhancements
            (updatePatterns (hide_correction\<lparr>newEnhancedName := ''Land O Lakes Butter''\<rparr>)
               Map.empty)
            [\<lparr>item_name = ''MILK'', item_enhancedName = None\<rparr>,
             \<lparr>item_name = ''LND O LKS BUTTER'', item_enhancedName = None\<rparr>]
            ''SAFEWAY'' ! 1) = ''Land O Lakes Butter''"
  using learning_override
          [of hide_correction 1
              "[\<lparr>item_name = ''MILK'', item_enhancedName = None\<rparr>,
                \<lparr>item_name = ''LND O LKS BUTTER'', item_enhancedName = None\<rparr>]"
              Map.empty]
        learning_override
          [of "hide_correction\<lparr>newEnhancedName := ''Land O Lakes Butter''\<rparr>" 1
              "[\<lparr>item_name = ''MILK'', item_enhancedName = None\<rparr>,
                \<lparr>item_name = ''LND O LKS BUTTER'', item_enhancedName = None\<rparr>]"
              Map.empty]
  by (simp add: hide_correction_def)

text \<open>
  C1 as stated fails for the empty string as the recorded value: the test \<open>else if (learned)\<close>
  takes it for a missing entry, the item keeps its own enhanced name and is not marked as
  learned.
\<close>

theorem learning_override_empty_counterexample:
  "getLearnedPatterns (updatePatterns (hide_correction\<lparr>newEnhancedName := []\<rparr>) Map.empty)
     ''SAFEWAY'' ''LND O LKS BUTTER'' = Some []
   \<and> learned_enhancedName
     (applyLearnedEnhancements
        (updatePatterns (hide_correction\<lparr>newEnhancedName := []\<rparr>) Map.empty)
        [\<lparr>item_name = ''LND O LKS BUTTER'', item_enhancedName = Some ''Butter''\<rparr>]
        ''SAFEWAY'' ! 0) = ''Butter''
   \<and> \<not> wasLearned
     (applyLearnedEnhancements
        (updatePatterns (hide_correction\<lparr>newEnhancedName := []\<rparr>) Map.empty)
        [\<lparr>item_name = ''LND O LKS BUTTER'', item_enhancedName = Some ''Butter''\<rparr>]
        ''SAFEWAY'' ! 0)"
  by (simp add: applyLearnedEnhancements_def learn_item_def getLearnedPatterns_def
        updatePatterns_def hide_correction_def toUpperCase_SAFEWAY enhanced_or_name_def
        Let_def)

section \<open>Properties of the non-food detector\<close>

text \<open>
  C2. The confidence of a detection is meant to lie between 0 and 1. It does not: for an
  item of 150.00 that is the only item of its receipt, the context score of layer 5 is
  0.8 + 0.3 + 0.2 = 1.3, and the confidence becomes the maximum of itself and that score.
\<close>

theorem detectNonFood_confidence_exceeds_one:
  "confidence
     (detectNonFood ''RIB ROAST'' (Some 150)
        (Some \<lparr>ctx_storeName = Some ''SAFEWAY'', allItems = Some [(''RIB ROAST'', 150)],
               itemIndex = Some 0\<rparr>)) = 13 / 10"
  by code_simp

text \<open>
  C3 (as amended). For a negative price \<open>detectNonFood\<close> returns \<open>isNonFood = true\<close> and the
  action \<open>hide\<close>. The confidence is 0.95, except for a name that matches no definite pattern
  of layer 1 and a store-service pattern of layer 2: layer 2 returns before the price is
  looked at, with the confidence 0.9.
\<close>

theorem detectNonFood_negative_price:
  assumes "p < 0"
  shows "isNonFood (detectNonFood itemName (Some p) ctx)
       \<and> suggestedAction (detectNonFood itemName (Some p) ctx) = hide
       \<and> confidence (detectNonFood itemName (Some p) ctx)
           = (if first_definite (trim (toLowerCase itemName)) = None
                 \<and> list_ex (\<lambda>rx. test rx (trim (toLowerCase itemName))) storeServices
              then 0.9 else 0.95)"
  using assms
  by (cases "first_definite (trim (toLowerCase itemName))")
     (simp_all add: detectNonFood_def Let_def)

theorem detectNonFood_negative_price_witness:
  "(- 2 :: real) < 0
   \<and> isNonFood (detectNonFood ''MILK'' (Some (- 2)) None)
   \<and> suggestedAction (detectNonFood ''MILK'' (Some (- 2)) None) = hide"
  using detectNonFood_negative_price [of "- 2" "''MILK''" None]
  by simp

text \<open>
  C3 as stated fails for the name \<open>CASHIER\<close>: it matches the second store-service pattern,
  and the confidence is 0.9 although the price is negative.
\<close>

theorem detectNonFood_negative_price_counterexample:
  "confidence (detectNonFood ''CASHIER'' (Some (- 2)) None) = 9 / 10"
  by code_simp

section \<open>Properties of validateAIResult\<close>

lemma floorlog_eq:
  assumes "2 ^ n \<le> m" "m < 2 ^ Suc n"
  shows "floorlog 2 m = Suc n"
proof -
  have "floorlog 2 m \<le> Suc n"
    using assms by (intro floorlog_leI) auto
  moreover have "Suc n \<le> floorlog 2 m"
    using assms by (intro floorlog_ge_SucI) auto
  ultimately show ?thesis by simp
qed

text \<open>\<open>floor_log2\<close> is the exponent.\<close>

lemma floor_log2_eq:
  assumes "pow2 e \<le> x" "x < pow2 (e + 1)"
  shows "floor_log2 x = e"
proof (cases "0 \<le> e")
  case True
  define n where "n = nat e"
  have e: "e = int n" using True by (simp add: n_def)
  have lo: "2 ^ n \<le> x" and hi: "x < 2 ^ Suc n"
    using assms True by (simp_all add: pow2_def e nat_add_distrib)
  have "1 \<le> x" using lo by (meson one_le_numeral one_le_power order_trans)
  have "(2::int) ^ n \<le> \<lfloor>x\<rfloor>" using lo by (simp add: le_floor_iff)
  hence a: "2 ^ n \<le> nat \<lfloor>x\<rfloor>"
    by (metis nat_mono nat_numeral nat_power_eq zero_le_numeral)
  have "\<lfloor>x\<rfloor> < 2 ^ Suc n" using hi by (simp add: floor_less_iff)
  hence b: "nat \<lfloor>x\<rfloor> < 2 ^ Suc n"
    by (metis nat_numeral nat_power_eq zero_le_numeral zless_nat_conj zero_less_numeral
          zero_less_power)
  show ?thesis
    using floorlog_eq [OF a b] \<open>1 \<le> x\<close> by (simp add: floor_log2_def e)
next
  case False
  define n where "n = nat (- e - 1)"
  have e: "e = - int (Suc n)" using False by (simp add: n_def)
  have lo: "1 / 2 ^ Suc n \<le> x"
    using assms(1) by (simp add: pow2_def e nat_add_distrib)
  have hi: "x < 1 / 2 ^ n"
    using assms(2) by (cases n) (simp_all add: pow2_def e nat_add_distrib)
  have pos: "0 < x" using lo by (smt (verit) divide_pos_pos zero_less_power)
  have "x < 1" using hi by (smt (verit) divide_le_eq_1_pos one_le_power zero_less_power)
  have le: "1 / x \<le> 2 ^ Suc n"
    using lo pos by (simp add: field_simps)
  have gt: "2 ^ n < 1 / x"
    using hi pos by (simp add: field_simps)
  define c where "c = \<lceil>1 / x\<rceil>"
  have c1: "c \<le> 2 ^ Suc n" using le by (simp add: c_def ceiling_le_iff)
  have c2: "2 ^ n < c" using gt by (simp add: c_def less_ceiling_iff)
  have c3: "0 \<le> c - 1" using c2 by (smt (verit) zero_less_power)
  have "int (2 ^ n) \<le> c - 1" using c2 by simp
  hence a: "2 ^ n \<le> nat (c - 1)" using c3 by (simp add: le_nat_iff)
  have "c - 1 < int (2 ^ Suc n)" using c1 by simp
  hence b: "nat (c - 1) < 2 ^ Suc n" using c3 by (simp only: nat_less_iff)
  show ?thesis
    using floorlog_eq [OF a b] \<open>x < 1\<close> by (simp add: floor_log2_def e c_def)
qed

text \<open>Rounding a number whose exponent is known.\<close>

lemma fl_exponent:
  assumes "pow2 e \<le> \<bar>x\<bar>" "\<bar>x\<bar> < pow2 (e + 1)"
  shows "fl x =
           (if 2 ^ 1024 \<le> of_int (round_half_even (\<bar>x\<bar> / pow2 (max e (- 1022) - 52)))
                             * pow2 (max e (- 1022) - 52)
            then (if 0 < x then PosInf else NegInf)
            else Finite (if 0 < x
                         then of_int (round_half_even (\<bar>x\<bar> / pow2 (max e (- 1022) - 52)))
                                * pow2 (max e (- 1022) - 52)
                         else - (of_int (round_half_even (\<bar>x\<bar> / pow2 (max e (- 1022) - 52)))
                                * pow2 (max e (- 1022) - 52))))"
proof -
  have "0 < pow2 e" by (simp add: pow2_def)
  hence "x \<noteq> 0" using assms(1) by auto
  moreover have "floor_log2 \<bar>x\<bar> = e"
    by (rule floor_log2_eq [OF assms])
  ultimately show ?thesis
    unfolding fl_def Let_def by (simp only: if_False)
qed

lemmas double_eval = pow2_def round_half_even_def





text \<open>What \<open>validateAIResult\<close> returns for a reply with a store, items and a total.\<close>

lemma validate_reply:
  assumes "JNull \<notin> set vs"
  shows "validateAIResult sconv nconv
           (JObj [(''storeName'', v), (''items'', JArr vs), (''total'', t)])
         = Inr (projr (validateAIResult sconv nconv
                         (JObj [(''storeName'', v), (''items'', JArr vs), (''total'', t)])))"
    and "ai_items (projr (validateAIResult sconv nconv
                            (JObj [(''storeName'', v), (''items'', JArr vs), (''total'', t)])))
         = map (clean_item sconv nconv) (filter keeps vs)"
    and "ai_total (projr (validateAIResult sconv nconv
                            (JObj [(''storeName'', v), (''items'', JArr vs), (''total'', JNum d)])))
         = (if d = Finite 0
               \<or> d_less (d_mul (itemsSum (map (clean_item sconv nconv) (filter keeps vs)))
                                (Finite (1 / 2)))
                    (d_abs (d_sub d (itemsSum (map (clean_item sconv nconv) (filter keeps vs)))))
            then itemsSum (map (clean_item sconv nconv) (filter keeps vs)) else d)"
  using assms by (simp_all add: validateAIResult_def declared_total_def Let_def)

lemma ai_item_not_null: "JNull \<noteq> ai_item nm enhanced price"
  by (simp add: ai_item_def)

lemma kept_price:
  "ai_price (clean_item sconv nconv (ai_item nm enhanced price)) = fl price"
  by (simp add: clean_item_def ai_item_def)

lemma keeps_item:
  "nm \<noteq> [] \<Longrightarrow> enhanced \<noteq> [] \<Longrightarrow>
   keeps (ai_item nm enhanced price) = d_less (Finite 0) (fl price)"
  by (simp add: keeps_def ai_item_def)

lemma itemsSum_prices: "itemsSum items = foldl d_add (Finite 0) (map ai_price items)"
  by (simp add: itemsSum_def foldl_map)





text \<open>
  A finite sum where rounding decides: the price 2 and the total 0.9999999999999999. The
  difference \<open>1 + 2 ^ -53\<close> is more than half of the sum but is rounded to 1, and the total
  is returned as it came.
\<close>

lemma validateAIResult_total_tie:
  "ai_total (projr (validateAIResult (\<lambda>v. []) (\<lambda>v. NaN) tie_reply))
     = Finite (9007199254740991 / 2 ^ 53)
   \<and> itemsSum (ai_items (projr (validateAIResult (\<lambda>v. []) (\<lambda>v. NaN) tie_reply))) = Finite 2
   \<and> 2 * (1 / 2) < \<bar>9007199254740991 / 2 ^ 53 - 2 :: real\<bar>"
proof -
  let ?res = "projr (validateAIResult (\<lambda>v. []) (\<lambda>v. NaN) tie_reply)"
  let ?items = "map (clean_item (\<lambda>v. []) (\<lambda>v. NaN)) (filter keeps [ai_item ''MILK'' ''Milk'' 2])"
  have two: "fl 2 = Finite 2"
    by (simp add: fl_exponent [of 1] double_eval)
  have items: "ai_items ?res = ?items"
    unfolding tie_reply_def by (rule validate_reply) (simp add: ai_item_not_null)
  have sum: "itemsSum ?items = Finite 2"
    by (simp add: itemsSum_prices keeps_item kept_price two)
  have declared: "fl (9999999999999999 / 10 ^ 16) = Finite (9007199254740991 / 2 ^ 53)"
    by (simp add: fl_exponent [of "- 1"] double_eval)
  have difference: "fl (9007199254740991 / 2 ^ 53 - 2) = Finite (- 1)"
    by (simp add: fl_exponent [of 0] double_eval)
  have half: "fl (2 * (1 / 2)) = Finite 1"
    by (simp add: fl_exponent [of 0] double_eval)
  have "ai_total ?res
          = (if fl (9999999999999999 / 10 ^ 16) = Finite 0
                \<or> d_less (d_mul (itemsSum ?items) (Finite (1 / 2)))
                     (d_abs (d_sub (fl (9999999999999999 / 10 ^ 16)) (itemsSum ?items)))
             then itemsSum ?items else fl (9999999999999999 / 10 ^ 16))"
    unfolding tie_reply_def by (rule validate_reply) (simp add: ai_item_not_null)
  hence "ai_total ?res = Finite (9007199254740991 / 2 ^ 53)"
    unfolding sum declared using difference half by (simp add: d_sub_def)
  moreover have "itemsSum (ai_items ?res) = Finite 2"
    by (simp only: items sum)
  moreover have "2 * (1 / 2) < \<bar>9007199254740991 / 2 ^ 53 - 2 :: real\<bar>"
    by simp
  ultimately show ?thesis by (intro conjI)
qed

section \<open>Properties of isOCRTextGarbled\<close>

text \<open>
  C5. A text in which the lines counted as garbled are more than 15 percent of the
  non-empty lines is reported as garbled. The verdict is the disjunction of: more than
  15 percent garbled lines, fewer than 10 percent valid receipt lines, more than 2 extreme
  indicators; more than 5 extreme indicators give the verdict at once.
\<close>

theorem isOCRTextGarbled_ratio:
  "(real (garbledLines text) > real (length (nonempty_lines text)) * 0.15
      \<longrightarrow> isOCRTextGarbled text)
   \<and> (extremeGarblingCount text > 5 \<longrightarrow> isOCRTextGarbled text)
   \<and> isOCRTextGarbled text
       = (real (garbledLines text) > real (length (nonempty_lines text)) * 0.15
          \<or> real (validReceiptLines text) < real (length (nonempty_lines text)) * 0.1
          \<or> extremeGarblingCount text > 2)"
  by (auto simp: isOCRTextGarbled_def)

theorem isOCRTextGarbled_ratio_witness:
  "real (garbledLines ''XKCDQWRT'') > real (length (nonempty_lines ''XKCDQWRT'')) * 0.15
   \<and> isOCRTextGarbled ''XKCDQWRT''"
proof -
  have "real (garbledLines ''XKCDQWRT'') > real (length (nonempty_lines ''XKCDQWRT'')) * 0.15"
    by code_simp
  then show ?thesis
    using isOCRTextGarbled_ratio [of "''XKCDQWRT''"] by blast
qed

section \<open>Properties of enhanceProductName\<close>

lemmas enhancer_eval =
  regexp_eval expand_def abbrev_rx_def keyword_rx_def clean_up_def title_case_def
  capitalize_def categorize_def join_def

lemma enhancedName_eq:
  "ep_enhancedName (enhanceProductName raw store) = title_case (fst (expanded raw store))"
  by (simp add: enhanceProductName_def Let_def)

text \<open>The steps of \<open>enhanceProductName\<close> for \<open>G-P MUSTARD\<close> at the store \<open>SAFEWAY\<close>.\<close>

lemma gp_store:
  "fold (expand 0.1) (store_abbreviations ''SAFEWAY'') (''G-P MUSTARD'', 0.7)
     = (''Grey Poupon MUSTARD'', 0.8)"
  by (simp add: store_abbreviations_def STORE_PATTERNS_def enhancer_eval)

lemma gp_common:
  "fold (expand 0.05) COMMON_ABBREVIATIONS (''Grey Poupon MUSTARD'', 0.8)
     = (''Grey Poupon MUSTARD'', 0.8)"
  by (simp add: COMMON_ABBREVIATIONS_def enhancer_eval)

lemma gp_category:
  "categorize ''Grey Poupon MUSTARD'' (None, 0.8) = (Some ''Condiments'', 0.9)"
  by (simp add: PRODUCT_CATEGORIES_def enhancer_eval)

text \<open>
  C7. Scenario B: \<open>enhanceProductName\<close> of \<open>G-P MUSTARD\<close> and the store \<open>SAFEWAY\<close> returns
  the enhanced name \<open>Grey Poupon Mustard\<close> with a confidence above 0.7 (it is 0.9: the base
  0.7, 0.1 for the store pattern \<open>G-P\<close> and 0.1 for the category).
\<close>

theorem scenario_B:
  "ep_enhancedName (enhanceProductName ''G-P MUSTARD'' ''SAFEWAY'') = ''Grey Poupon Mustard''
   \<and> ep_confidence (enhanceProductName ''G-P MUSTARD'' ''SAFEWAY'') > 0.7"
proof -
  have c: "clean_up ''G-P MUSTARD'' = ''G-P MUSTARD''"
    by (simp add: enhancer_eval)
  have e: "expanded ''G-P MUSTARD'' ''SAFEWAY'' = (''Grey Poupon MUSTARD'', 0.8)"
    by (simp only: expanded_def c gp_store gp_common)
  have t: "title_case ''Grey Poupon MUSTARD'' = ''Grey Poupon Mustard''"
    by (simp add: enhancer_eval)
  have r: "enhanceProductName ''G-P MUSTARD'' ''SAFEWAY''
             = \<lparr>ep_originalName = ''G-P MUSTARD'', ep_enhancedName = ''Grey Poupon Mustard'',
                ep_category = Some ''Condiments'', ep_confidence = min 0.9 1.0\<rparr>"
    by (simp only: enhanceProductName_def Let_def e fst_conv snd_conv gp_category t)
  show ?thesis
    by (simp add: r)
qed

lemma categorize_last:
  "fst (categorize nm st) =
     (case filter (\<lambda>row. test (keyword_rx (fst row)) nm) PRODUCT_CATEGORIES of
        [] \<Rightarrow> fst st
      | r # rs \<Rightarrow> Some (snd (last (r # rs))))"
proof -
  have "fst (fold (\<lambda>row st. if P row then (Some (snd row), snd st + 0.1) else st) rows st) =
          (case filter P rows of [] \<Rightarrow> fst st | r # rs \<Rightarrow> Some (snd (last (r # rs))))"
    for P :: "string list \<times> string \<Rightarrow> bool" and rows and st :: "string option \<times> real"
    by (induction rows arbitrary: st) (auto split: list.splits)
  then show ?thesis
    by (simp add: categorize_def)
qed

text \<open>
  C8 (as amended). The category returned by \<open>enhanceProductName\<close> is that of the last row
  of the table, in its fixed order, with a keyword in the name as it is after the
  abbreviations were expanded; there is no category when no row has one. The loop goes
  through all rows and each matching row overwrites the category.
\<close>

theorem enhanceProductName_category_last:
  "ep_category (enhanceProductName raw store) = last_match_category (fst (expanded raw store))"
  by (simp add: enhanceProductName_def Let_def categorize_last last_match_category_def
        split: list.splits)

text \<open>
  C8 as stated fails for \<open>APPLE JUICE\<close>: the first row with a keyword in it is Produce
  (\<open>APPLE\<close>), the category returned is that of the later row Beverages (\<open>JUICE\<close>).
\<close>

lemma apple_juice_expanded: "fst (expanded ''APPLE JUICE'' []) = ''APPLE JUICE''"
proof -
  have c: "clean_up ''APPLE JUICE'' = ''APPLE JUICE''"
    by (simp add: enhancer_eval)
  have s: "store_abbreviations [] = []"
    by (simp add: store_abbreviations_def STORE_PATTERNS_def string_eval)
  have f: "fold (expand 0.05) COMMON_ABBREVIATIONS (''APPLE JUICE'', 0.7)
             = (''APPLE JUICE'', 0.7)"
    by (simp add: COMMON_ABBREVIATIONS_def enhancer_eval)
  show ?thesis
    by (simp only: expanded_def c s fold.simps id_apply f fst_conv)
qed

theorem category_first_match_counterexample:
  "ep_category (enhanceProductName ''APPLE JUICE'' []) = Some ''Beverages''
   \<and> first_match_category (fst (expanded ''APPLE JUICE'' [])) = Some ''Produce''"
proof -
  have l: "last_match_category ''APPLE JUICE'' = Some ''Beverages''"
    by (simp add: last_match_category_def PRODUCT_CATEGORIES_def enhancer_eval)
  have f: "first_match_category ''APPLE JUICE'' = Some ''Produce''"
    by (simp add: first_match_category_def PRODUCT_CATEGORIES_def enhancer_eval)
  have "ep_category (enhanceProductName ''APPLE JUICE'' [])
          = last_match_category (fst (expanded ''APPLE JUICE'' []))"
    by (simp add: enhanceProductName_def Let_def categorize_last last_match_category_def
          split: list.splits)
  then show ?thesis
    by (simp only: apple_juice_expanded l f)
qed

section \<open>Determinism\<close>



















section \<open>Letters\<close>

lemma upper_letters:
  assumes "kind c = Upper"
  shows "kind (other_case c) = Lower" "other_case (other_case c) = c"
proof -
  have "c \<in> set uppers"
    using assms by (simp add: kind_def split: if_splits)
  thus "kind (other_case c) = Lower" "other_case (other_case c) = c"
    unfolding uppers_def by (auto simp: kind_table other_case_table)
qed

lemma lower_letters:
  assumes "kind c = Lower"
  shows "kind (other_case c) = Upper" "other_case (other_case c) = c"
proof -
  have "c \<in> set lowers"
    using assms by (simp add: kind_def split: if_splits)
  thus "kind (other_case c) = Upper" "other_case (other_case c) = c"
    unfolding lowers_def by (auto simp: kind_table other_case_table)
qed

lemma kind_lower_char:
  "kind (lower_char c) = (if kind c = Upper then Lower else kind c)"
  by (simp add: lower_char_def upper_letters)

lemma kind_upper_char:
  "kind (upper_char c) = (if kind c = Lower then Upper else kind c)"
  by (simp add: upper_char_def lower_letters)

lemma lower_lower [simp]: "lower_char (lower_char c) = lower_char c"
  by (simp add: lower_char_def upper_letters)

lemma upper_upper [simp]: "upper_char (upper_char c) = upper_char c"
  by (simp add: upper_char_def lower_letters)

lemma lower_upper [simp]: "lower_char (upper_char c) = lower_char c"
  by (auto simp: lower_char_def upper_char_def lower_letters)

lemma upper_lower [simp]: "upper_char (lower_char c) = upper_char c"
  by (auto simp: lower_char_def upper_char_def upper_letters)

lemma is_space_case [simp]:
  "is_space (lower_char c) = is_space c" "is_space (upper_char c) = is_space c"
  by (auto simp: is_space_def kind_lower_char kind_upper_char)

lemma underscore_case:
  "lower_char c = CHR ''_'' \<longleftrightarrow> c = CHR ''_''" "upper_char c = CHR ''_'' \<longleftrightarrow> c = CHR ''_''"
  using upper_letters(1) [of c] lower_letters(1) [of c]
  by (auto simp: lower_char_def upper_char_def kind_table)

lemma is_word_case [simp]:
  "is_word (lower_char c) = is_word c" "is_word (upper_char c) = is_word c"
  by (auto simp: is_word_def kind_lower_char kind_upper_char underscore_case)

lemma space_case [simp]:
  "lower_char c = CHR '' '' \<longleftrightarrow> c = CHR '' ''" "upper_char c = CHR '' '' \<longleftrightarrow> c = CHR '' ''"
  using upper_letters(1) [of c] lower_letters(1) [of c]
  by (auto simp: lower_char_def upper_char_def kind_table)

lemma same_letter:
  "lower_char a = lower_char c \<longleftrightarrow> a = c \<or> a = upper_char c \<or> a = lower_char c"
proof
  assume eq: "lower_char a = lower_char c"
  show "a = c \<or> a = upper_char c \<or> a = lower_char c"
  proof (cases "kind a = Upper")
    case True
    show ?thesis
    proof (cases "kind c = Upper")
      case c: True
      have "other_case (other_case a) = other_case (other_case c)"
        using eq True c by (simp add: lower_char_def)
      thus ?thesis using True c by (simp add: upper_letters)
    next
      case c: False
      hence "other_case a = c" using eq True by (simp add: lower_char_def)
      hence "kind c = Lower" "other_case c = a" using True upper_letters [of a] by auto
      thus ?thesis by (simp add: upper_char_def)
    qed
  next
    case False
    thus ?thesis using eq by (auto simp: lower_char_def)
  qed
next
  assume "a = c \<or> a = upper_char c \<or> a = lower_char c"
  thus "lower_char a = lower_char c" by auto
qed

lemma atom_match_letter: "atom_match True (C a) c \<longleftrightarrow> lower_char a = lower_char c"
  by (auto simp: atom_match_def same_letter)

lemma same_upper: "lower_char a = lower_char c \<Longrightarrow> upper_char a = upper_char c"
  by (metis upper_lower)

section \<open>What the regular expressions of the enhancer compute\<close>

text \<open>\<open>\s+\<close> replaced by a space.\<close>

lemma rep_spaces:
  "length s < k \<Longrightarrow>
   rep (ends False (One [S])) k 0 None (p, s) \<noteq> []
   \<and> snd (hd (rep (ends False (One [S])) k 0 None (p, s))) = dropWhile is_space s"
proof (induction s arbitrary: k p)
  case Nil
  then obtain k' where "k = Suc k'" by (cases k) auto
  thus ?case by simp
next
  case (Cons c cs)
  then obtain k' where k: "k = Suc k'" and len: "length cs < k'" by (cases k) auto
  show ?case
    using Cons.IH [OF len, of "Some c"] by (simp add: k atom_match_def)
qed

lemma ends_spaces:
  "ends False ws1 (p, s) =
     (case s of [] \<Rightarrow> []
      | c # cs \<Rightarrow> if is_space c then rep (ends False (One [S])) (length s) 0 None (Some c, cs)
                  else [])"
  by (cases s) (simp_all add: ws1_def Plus_def atom_match_def)

lemma squeeze_dropWhile: "squeeze True s = squeeze b (dropWhile is_space s)"
  by (induction s) simp_all

lemma replace_spaces:
  "replace_from False ws1 (\<lambda>m. '' '') j (p, s) = squeeze False (drop j s)"
proof (induction s arbitrary: j p rule: length_induct)
  case (1 s)
  show ?case
  proof (cases s)
    case Nil
    thus ?thesis by (simp add: ends_spaces)
  next
    case (Cons c cs)
    show ?thesis
    proof (cases "0 < j")
      case True
      have "replace_from False ws1 (\<lambda>m. '' '') (j - 1) (Some c, cs) = squeeze False (drop (j - 1) cs)"
        using 1 Cons by simp
      thus ?thesis using True Cons by (cases j) simp_all
    next
      case False
      hence j: "j = 0" by simp
      show ?thesis
      proof (cases "is_space c")
        case False
        have "replace_from False ws1 (\<lambda>m. '' '') 0 (Some c, cs) = squeeze False (drop 0 cs)"
          using 1 Cons by simp
        thus ?thesis using False Cons j by (simp add: ends_spaces)
      next
        case True
        let ?r = "rep (ends False (One [S])) (length s) 0 None (Some c, cs)"
        have r: "?r \<noteq> []" "snd (hd ?r) = dropWhile is_space cs"
          using rep_spaces [of cs "length s" "Some c"] Cons by simp_all
        obtain e es where e: "?r = e # es" using r(1) by (cases ?r) auto
        hence se: "snd e = dropWhile is_space cs" using r(2) by simp
        let ?n = "length (c # cs) - length (dropWhile is_space cs)"
        have "length (takeWhile is_space cs) + length (dropWhile is_space cs) = length cs"
          by (metis length_append takeWhile_dropWhile_id)
        hence n: "?n - 1 = length (takeWhile is_space cs)"
          by simp
        have pos: "?n \<noteq> 0"
          using length_dropWhile_le [of is_space cs] by simp
        have "replace_from False ws1 (\<lambda>m. '' '') (?n - 1) (Some c, cs)
                = squeeze False (drop (?n - 1) cs)"
          using 1 Cons by simp
        also have "drop (?n - 1) cs = dropWhile is_space cs"
          unfolding n by (simp add: dropWhile_eq_drop)
        finally have rest: "replace_from False ws1 (\<lambda>m. '' '') (?n - 1) (Some c, cs)
                              = squeeze False (dropWhile is_space cs)" .
        have "replace_from False ws1 (\<lambda>m. '' '') 0 (p, c # cs)
                = '' '' @ replace_from False ws1 (\<lambda>m. '' '') (?n - 1) (Some c, cs)"
          using True e se pos Cons by (simp add: ends_spaces Let_def)
        thus ?thesis
          using True Cons j rest squeeze_dropWhile [of cs False] by simp
      qed
    qed
  qed
qed

lemma collapse_spaces: "replace_all (False, ws1) (\<lambda>m. '' '') s = squeeze False s"
  by (simp add: replace_all_def replace_spaces)

text \<open>\<open>[^\w\s&'-]\<close> removed.\<close>

lemma remove_others_from:
  "replace_from False (NoneOf [W, S, C (CHR ''&''), C (CHR 0x27), C (CHR ''-'')]) (\<lambda>m. []) 0 (p, s)
     = filter allowed s"
  by (induction s arbitrary: p) (auto simp: atom_match_def allowed_def)

lemma remove_others:
  "replace_all (False, NoneOf [W, S, C (CHR ''&''), C (CHR 0x27), C (CHR ''-'')]) (\<lambda>m. []) s
     = filter allowed s"
  by (simp add: replace_all_def remove_others_from)

text \<open>The characters of a replacement come from the string or from the expansion.\<close>

lemma replace_from_chars:
  "set (replace_from ci r (\<lambda>m. e) j (p, s)) \<subseteq> set s \<union> set e"
proof (induction s arbitrary: j p)
  case Nil
  show ?case by auto
next
  case (Cons c cs)
  show ?case
    using Cons [of "j - 1" "Some c"] Cons [of 0 "Some c"]
      Cons [of "length (c # cs) - length (snd (hd (ends ci r (p, c # cs)))) - 1" "Some c"]
    by (auto simp: Let_def split: list.splits)
qed

section \<open>Abbreviations as whole words\<close>

lemma lit_ends_eq:
  "lit_ends True k (p, s) =
     (if length k \<le> length s \<and> toLowerCase (take (length k) s) = toLowerCase k
      then [after k (p, s)] else [])"
proof (induction k arbitrary: p s)
  case Nil
  show ?case by (simp add: after_def toLowerCase_def)
next
  case (Cons a w)
  show ?case
  proof (cases s)
    case Nil
    thus ?thesis by simp
  next
    case (Cons c cs)
    have "after w (Some c, cs) = after (a # w) (p, c # cs)"
      by (cases w) (simp_all add: after_def)
    thus ?thesis
      using Cons.IH [of "Some c" cs] Cons
      by (auto simp: atom_match_letter toLowerCase_def)
  qed
qed

lemma ends_abbrev:
  "ends True (snd (abbrev_rx k)) q = (if occurs_at k q then [after k q] else [])"
  by (cases q) (auto simp: abbrev_rx_def seqs_def lit_ends_eq occurs_at_def boundary_def)

lemma same_pos_boundary:
  assumes "same_pos q q'"
  shows "boundary q = boundary q'"
proof -
  have "word_before q = word_before q'"
  proof (cases "fst q")
    case None
    thus ?thesis using assms by (simp add: same_pos_def word_before_def)
  next
    case (Some c)
    then obtain c' where c': "fst q' = Some c'" "lower_char c = lower_char c'"
      using assms by (cases "fst q'") (auto simp: same_pos_def)
    have "is_word c = is_word c'"
      using c'(2) by (metis is_word_case(1))
    thus ?thesis using Some c'(1) by (simp add: word_before_def)
  qed
  moreover have "word_after q = word_after q'"
  proof (cases "snd q")
    case Nil
    thus ?thesis using assms by (simp add: same_pos_def word_after_def toLowerCase_def)
  next
    case (Cons c cs)
    then obtain c' cs' where c': "snd q' = c' # cs'" "lower_char c = lower_char c'"
      using assms by (cases "snd q'") (auto simp: same_pos_def toLowerCase_def)
    have "is_word c = is_word c'"
      using c'(2) by (metis is_word_case(1))
    thus ?thesis using Cons c'(1) by (simp add: word_after_def)
  qed
  ultimately show ?thesis by (simp add: boundary_def)
qed

lemma same_pos_after:
  assumes "same_pos q q'" "length k \<le> length (snd q)"
  shows "same_pos (after k q) (after k q')"
proof -
  have s: "map lower_char (snd q) = map lower_char (snd q')"
    and p: "map_option lower_char (fst q) = map_option lower_char (fst q')"
    using assms(1) by (simp_all add: same_pos_def toLowerCase_def)
  have len: "length (snd q) = length (snd q')"
    using s by (metis length_map)
  have "map lower_char (drop (length k) (snd q)) = map lower_char (drop (length k) (snd q'))"
    using s by (simp add: drop_map [symmetric])
  moreover have "lower_char (snd q ! (length k - 1)) = lower_char (snd q' ! (length k - 1))"
    if "k \<noteq> []"
  proof -
    have i: "length k - 1 < length (snd q)" using that assms(2) by (cases k) auto
    have "map lower_char (snd q) ! (length k - 1) = map lower_char (snd q') ! (length k - 1)"
      using s by simp
    thus ?thesis using i len by simp
  qed
  ultimately show ?thesis
    using p by (simp add: same_pos_def after_def toLowerCase_def)
qed

lemma same_pos_occurs:
  assumes "same_pos q q'"
  shows "occurs_at k q = occurs_at k q'"
proof -
  have s: "map lower_char (snd q) = map lower_char (snd q')"
    using assms by (simp add: same_pos_def toLowerCase_def)
  have len: "length (snd q) = length (snd q')"
    using s by (metis length_map)
  have "map lower_char (take (length k) (snd q)) = map lower_char (take (length k) (snd q'))"
    using s by (simp add: take_map [symmetric])
  moreover have "boundary (after k q) = boundary (after k q')" if "length k \<le> length (snd q)"
    using same_pos_boundary [OF same_pos_after [OF assms that]] .
  ultimately show ?thesis
    using same_pos_boundary [OF assms] len
    by (auto simp: occurs_at_def toLowerCase_def)
qed

lemma search_same_pos:
  "same_pos (p, s) (p', s') \<Longrightarrow>
   (search True (snd (abbrev_rx k)) (p, s) = None)
     = (search True (snd (abbrev_rx k)) (p', s') = None)"
proof (induction s arbitrary: p p' s')
  case Nil
  hence "s' = []" by (simp add: same_pos_def toLowerCase_def)
  thus ?case
    using same_pos_occurs [OF Nil, of k] by (simp add: ends_abbrev)
next
  case (Cons c cs)
  then obtain c' cs' where s': "s' = c' # cs'"
    by (cases s') (auto simp: same_pos_def toLowerCase_def)
  have "same_pos (Some c, cs) (Some c', cs')"
    using Cons.prems by (simp add: s' same_pos_def toLowerCase_def)
  from Cons.IH [OF this] same_pos_occurs [OF Cons.prems, of k]
  show ?case by (simp add: s' ends_abbrev)
qed

text \<open>Whether an abbreviation occurs depends on the letters, not on their case.\<close>

lemma test_same_letters:
  assumes "toLowerCase a = toLowerCase b"
  shows "test (abbrev_rx k) a = test (abbrev_rx k) b"
proof -
  have "same_pos (None, a) (None, b)"
    using assms by (simp add: same_pos_def)
  from search_same_pos [OF this, of k] show ?thesis
    by (simp add: test_def abbrev_rx_def)
qed

text \<open>An expansion that spells the abbreviation leaves the letters as they are.\<close>

lemma replace_same_letters:
  assumes "toLowerCase e = toLowerCase k"
  shows "toLowerCase (replace_from True (snd (abbrev_rx k)) (\<lambda>m. e) j (p, s))
           = toLowerCase (drop j s)"
proof (induction s arbitrary: j p)
  case Nil
  have "e = []" if "occurs_at k (p, [])"
    using that assms by (simp add: occurs_at_def toLowerCase_def)
  thus ?case by (auto simp: ends_abbrev toLowerCase_def)
next
  case (Cons c cs)
  show ?case
  proof (cases "0 < j")
    case True
    thus ?thesis using Cons [of "j - 1" "Some c"] by (cases j) simp_all
  next
    case False
    hence j: "j = 0" by simp
    show ?thesis
    proof (cases "occurs_at k (p, c # cs)")
      case False
      thus ?thesis using Cons [of 0 "Some c"] j by (simp add: ends_abbrev toLowerCase_def)
    next
      case True
      let ?n = "length k"
      have len: "?n \<le> length (c # cs)"
        and m: "toLowerCase (take ?n (c # cs)) = toLowerCase k"
        using True by (simp_all add: occurs_at_def)
      have n: "length (c # cs) - length (snd (after k (p, c # cs))) = ?n"
        using len by (simp add: after_def)
      have step: "replace_from True (snd (abbrev_rx k)) (\<lambda>m. e) 0 (p, c # cs)
                    = e @ (if ?n = 0 then [c] else [])
                      @ replace_from True (snd (abbrev_rx k)) (\<lambda>m. e) (?n - 1) (Some c, cs)"
        using True n by (simp add: ends_abbrev Let_def del: length_0_conv)
      have rest: "toLowerCase (replace_from True (snd (abbrev_rx k)) (\<lambda>m. e) (?n - 1) (Some c, cs))
                    = toLowerCase (drop (?n - 1) cs)"
        by (rule Cons)
      show ?thesis
      proof (cases "?n = 0")
        case True
        hence "e = []" using assms by (simp add: toLowerCase_def)
        thus ?thesis
          unfolding j step using rest True by (simp add: toLowerCase_def)
      next
        case False
        have "toLowerCase (take ?n (c # cs)) @ toLowerCase (drop ?n (c # cs))
                = toLowerCase (c # cs)"
          by (simp add: toLowerCase_def map_append [symmetric] del: map_append)
        moreover have "drop (?n - 1) cs = drop ?n (c # cs)"
          using False by (cases "?n") simp_all
        ultimately show ?thesis
          using step rest False j m assms by (simp add: toLowerCase_def)
      qed
    qed
  qed
qed

section \<open>Title case\<close>

lemma split_on_not_Nil: "split_on sep s \<noteq> []"
  by (induction s) (auto split: list.splits)

lemma join_Cons: "ws \<noteq> [] \<Longrightarrow> join (w # ws) = w @ CHR '' '' # join ws"
  by (cases ws) (simp_all add: join_def)

lemma join_Cons_Cons: "join ((c # w) # ws) = c # join (w # ws)"
  by (cases ws) (simp_all add: join_def)

lemma join_capitalize_from:
  "join (case split_on (CHR '' '') s of
           w # ws \<Rightarrow> (if b then capitalize w else toLowerCase w) # map capitalize ws
         | [] \<Rightarrow> [])
     = recase b s"
proof (induction s arbitrary: b)
  case Nil
  show ?case by (simp add: join_def capitalize_def toLowerCase_def)
next
  case (Cons c cs)
  obtain w ws where split: "split_on (CHR '' '') cs = w # ws"
    using split_on_not_Nil [of "CHR '' ''" cs] by (cases "split_on (CHR '' '') cs") auto
  show ?case
  proof (cases "c = CHR '' ''")
    case True
    have "join (capitalize w # map capitalize ws) = recase True cs"
      using Cons [of True] by (simp add: split)
    thus ?thesis
      using True by (simp add: split join_Cons capitalize_def toLowerCase_def)
  next
    case False
    have "join (toLowerCase w # map capitalize ws) = recase False cs"
      using Cons [of False] by (simp add: split)
    thus ?thesis
      using False by (simp add: split join_Cons_Cons capitalize_def toLowerCase_def)
  qed
qed

lemma join_capitalize: "join (map capitalize (split_on (CHR '' '') s)) = recase True s"
  using join_capitalize_from [of True s] split_on_not_Nil [of "CHR '' ''" s]
  by (cases "split_on (CHR '' '') s") simp_all

lemma title_case_eq: "title_case s = trim (squeeze False (recase True s))"
  by (simp add: title_case_def join_capitalize collapse_spaces)

lemma clean_up_eq: "clean_up s = trim (filter allowed (squeeze False (trim s)))"
  by (simp add: clean_up_def collapse_spaces remove_others)

section \<open>Trimmed, single-spaced, title-cased strings\<close>

lemma rtrim_snoc:
  "rev (dropWhile P (rev (a @ [c]))) = (if P c then rev (dropWhile P (rev a)) else a @ [c])"
  by simp

lemma rtrim_id: "s \<noteq> [] \<Longrightarrow> \<not> P (last s) \<Longrightarrow> rev (dropWhile P (rev s)) = s"
  by (induction s rule: rev_induct) simp_all

lemma rtrim_last:
  "rev (dropWhile P (rev s)) \<noteq> [] \<Longrightarrow> \<not> P (last (rev (dropWhile P (rev s))))"
  by (induction s rule: rev_induct) (simp_all split: if_splits)

lemma rtrim_hd:
  "rev (dropWhile P (rev s)) \<noteq> [] \<Longrightarrow> hd (rev (dropWhile P (rev s))) = hd s"
  by (induction s rule: rev_induct) (auto split: if_splits simp: hd_append)

lemma trim_trim: "trim (trim s) = trim s"
proof (cases "trim s = []")
  case True
  moreover have "trim [] = []" by (simp add: trim_def)
  ultimately show ?thesis by simp
next
  case False
  let ?t = "dropWhile is_space s"
  have t: "?t \<noteq> []"
  proof
    assume "?t = []"
    hence "trim s = rev (dropWhile is_space (rev []))" by (simp only: trim_def)
    thus False using False by simp
  qed
  have "hd (trim s) = hd ?t"
    using False rtrim_hd [of is_space ?t] by (simp add: trim_def)
  moreover have "\<not> is_space (hd ?t)"
    using t hd_dropWhile by blast
  ultimately have "dropWhile is_space (trim s) = trim s"
    using False by (cases "trim s") simp_all
  moreover have "\<not> is_space (last (trim s))"
    using False rtrim_last [of is_space ?t] by (simp add: trim_def)
  ultimately show ?thesis
    using False rtrim_id [of "trim s" is_space] by (simp add: trim_def [of "trim s"])
qed

lemma set_trim: "set (trim s) \<subseteq> set s"
proof -
  have "set (rev (dropWhile is_space (rev t))) \<subseteq> set t" for t
    using set_dropWhileD [of _ is_space "rev t"] by auto
  moreover have "set (dropWhile is_space s) \<subseteq> set s"
    using set_dropWhileD by fastforce
  ultimately show ?thesis unfolding trim_def by blast
qed

lemma space_is_space: "is_space (CHR '' '')"
  by (simp add: is_space_def kind_table)

lemma spaced_squeeze: "spaced b (squeeze b s)"
  by (induction s arbitrary: b) (simp_all add: space_is_space)

lemma squeeze_spaced: "spaced b s \<Longrightarrow> squeeze b s = s"
  by (induction s arbitrary: b) (auto split: if_splits)

lemma spaced_dropWhile: "spaced b s \<Longrightarrow> spaced b' (dropWhile is_space s)"
  by (induction s arbitrary: b) (auto split: if_splits)

lemma spaced_prefix: "spaced b (a @ r) \<Longrightarrow> spaced b a"
  by (induction a arbitrary: b) (auto split: if_splits)

lemma spaced_rtrim: "spaced b s \<Longrightarrow> spaced b (rev (dropWhile is_space (rev s)))"
proof (induction s rule: rev_induct)
  case Nil
  show ?case by simp
next
  case (snoc c a)
  have "spaced b a" using snoc.prems by (rule spaced_prefix)
  thus ?case using snoc by (simp del: spaced.simps)
qed

lemma spaced_trim: "spaced b s \<Longrightarrow> spaced False (trim s)"
  unfolding trim_def by (intro spaced_rtrim spaced_dropWhile)

lemma squeeze_chars:
  "c \<in> set (squeeze b s) \<Longrightarrow> c = CHR '' '' \<or> c \<in> set s \<and> \<not> is_space c"
  by (induction s arbitrary: b) (auto split: if_splits)

text \<open>Title case of a string in title case.\<close>

lemma recase_recase: "recase b (recase b s) = recase b s"
  by (induction s arbitrary: b) simp_all

lemma recase_squeeze:
  "(b' \<longrightarrow> b) \<Longrightarrow> \<forall>c\<in>set s. is_space c \<longrightarrow> c = CHR '' '' \<Longrightarrow>
   recase b (squeeze b' s) = squeeze b' (recase b s)"
proof (induction s arbitrary: b b')
  case Nil
  show ?case by simp
next
  case (Cons c cs)
  have rest: "\<forall>c\<in>set cs. is_space c \<longrightarrow> c = CHR '' ''" using Cons.prems(2) by simp
  show ?case
  proof (cases "is_space c")
    case True
    hence c: "c = CHR '' ''" using Cons.prems(2) by simp
    show ?thesis
      using Cons.IH [of True True, OF _ rest] Cons.prems(1)
      by (simp add: c space_is_space)
  next
    case False
    hence c: "c \<noteq> CHR '' ''" using space_is_space by auto
    show ?thesis
      using Cons.IH [of False False, OF _ rest] False by (simp add: c)
  qed
qed

lemma recase_dropWhile:
  "\<forall>c\<in>set s. is_space c \<longrightarrow> c = CHR '' '' \<Longrightarrow>
   recase True (dropWhile is_space s) = dropWhile is_space (recase True s)"
proof (induction s)
  case Nil
  show ?case by simp
next
  case (Cons c cs)
  have rest: "\<forall>c\<in>set cs. is_space c \<longrightarrow> c = CHR '' ''" using Cons.prems by simp
  show ?case
  proof (cases "is_space c")
    case True
    hence c: "c = CHR '' ''" using Cons.prems by simp
    show ?thesis
      unfolding c using Cons.IH [OF rest] by (simp add: space_is_space)
  next
    case False
    hence "c \<noteq> CHR '' ''" using space_is_space by auto
    thus ?thesis using False by simp
  qed
qed

lemma recase_snoc: "\<exists>d. recase b (a @ [c]) = recase b a @ [d] \<and> is_space d = is_space c"
  by (induction a arbitrary: b) (simp_all add: space_is_space)

lemma recase_rtrim:
  "recase b (rev (dropWhile is_space (rev s))) = rev (dropWhile is_space (rev (recase b s)))"
proof (induction s rule: rev_induct)
  case Nil
  show ?case by simp
next
  case (snoc c a)
  obtain d where d: "recase b (a @ [c]) = recase b a @ [d]" "is_space d = is_space c"
    using recase_snoc by blast
  show ?case
    using snoc by (simp only: d rtrim_snoc split: if_splits) simp
qed

lemma recase_spaces:
  "\<forall>c\<in>set s. is_space c \<longrightarrow> c = CHR '' '' \<Longrightarrow>
   \<forall>c\<in>set (recase b s). is_space c \<longrightarrow> c = CHR '' ''"
proof (induction s arbitrary: b)
  case Nil
  show ?case by simp
next
  case (Cons c cs)
  have rest: "\<forall>c\<in>set cs. is_space c \<longrightarrow> c = CHR '' ''" using Cons.prems by simp
  have c: "is_space c \<longrightarrow> c = CHR '' ''" using Cons.prems by simp
  show ?case
  proof (cases "c = CHR '' ''")
    case True
    thus ?thesis using Cons.IH [OF rest, of True] by simp
  next
    case False
    hence "\<not> is_space c" using c by simp
    thus ?thesis using False Cons.IH [OF rest, of False] by simp
  qed
qed

lemma recase_trim:
  assumes "\<forall>c\<in>set s. is_space c \<longrightarrow> c = CHR '' ''"
  shows "recase True (trim s) = trim (recase True s)"
  unfolding trim_def by (simp only: recase_rtrim recase_dropWhile [OF assms])

lemma recase_same_letters:
  "toLowerCase a = toLowerCase b \<Longrightarrow> recase f a = recase f b"
proof (induction a arbitrary: b f)
  case Nil
  thus ?case by (simp add: toLowerCase_def)
next
  case (Cons c cs)
  then obtain d ds where b: "b = d # ds" "lower_char c = lower_char d"
    "toLowerCase cs = toLowerCase ds"
    by (cases b) (auto simp: toLowerCase_def)
  have "c = CHR '' '' \<longleftrightarrow> d = CHR '' ''"
    using b(2) by (metis space_case(1))
  moreover have "upper_char c = upper_char d"
    using b(2) by (rule same_upper)
  ultimately show ?case
    using Cons.IH [OF b(3)] b by simp
qed

section \<open>Idempotence of enhanceProductName\<close>

lemma plain_case: "plain c \<Longrightarrow> plain (upper_char c) \<and> plain (lower_char c)"
proof -
  assume c: "plain c"
  have other: "upper_char c = c \<and> lower_char c = c" if "kind c = Other"
    using that by (simp add: upper_char_def lower_char_def)
  have "kind c = Other" if "c = CHR ''&'' \<or> c = CHR 0x27 \<or> c = CHR ''-''"
    using that by (auto simp: kind_table)
  thus ?thesis
    using c other by (auto simp: plain_def allowed_def)
qed

lemma plain_space: "plain (CHR '' '')"
  by (simp add: plain_def allowed_def space_is_space)

lemma plain_recase: "list_all plain s \<Longrightarrow> list_all plain (recase b s)"
  by (induction s arbitrary: b) (simp_all add: plain_case plain_space)

lemma plain_spaces: "list_all plain s \<Longrightarrow> \<forall>c\<in>set s. is_space c \<longrightarrow> c = CHR '' ''"
  by (simp add: list_all_iff plain_def)

lemma plain_squeeze: "list_all plain s \<Longrightarrow> list_all plain (squeeze b s)"
  using squeeze_chars plain_space by (fastforce simp: list_all_iff)

lemma plain_trim: "list_all plain s \<Longrightarrow> list_all plain (trim s)"
  using set_trim by (fastforce simp: list_all_iff)

lemma plain_clean_up: "list_all plain (clean_up s)"
proof -
  have "plain c" if "c \<in> set (filter allowed (squeeze False (trim s)))" for c
    using that squeeze_chars [of c False "trim s"] space_is_space
    by (auto simp: plain_def)
  thus ?thesis
    unfolding clean_up_eq by (intro plain_trim) (simp add: list_all_iff)
qed

lemma plain_expand:
  assumes "list_all plain (snd entry)" "list_all plain (fst st)"
  shows "list_all plain (fst (expand b entry st))"
  using assms replace_from_chars [of True "snd (abbrev_rx (fst entry))" "snd entry" 0 None "fst st"]
  by (auto simp: expand_def replace_all_def abbrev_rx_def list_all_iff)

lemma plain_fold_expand:
  "list_all (\<lambda>entry. list_all plain (snd entry)) es \<Longrightarrow> list_all plain (fst st) \<Longrightarrow>
   list_all plain (fst (fold (expand b) es st))"
  by (induction es arbitrary: st) (simp_all add: plain_expand)

lemma plain_tables:
  "list_all (\<lambda>entry. list_all plain (snd entry))
     (concat (map snd STORE_PATTERNS) @ COMMON_ABBREVIATIONS)"
  by (simp add: STORE_PATTERNS_def COMMON_ABBREVIATIONS_def plain_def allowed_def
        is_space_def is_word_def kind_table)

lemma store_abbreviations_table:
  "set (store_abbreviations store) \<subseteq> set (concat (map snd STORE_PATTERNS))"
proof (cases "map_of STORE_PATTERNS (toUpperCase store)")
  case None
  thus ?thesis by (simp add: store_abbreviations_def)
next
  case (Some ps)
  hence "(toUpperCase store, ps) \<in> set STORE_PATTERNS" by (rule map_of_SomeD)
  thus ?thesis using Some by (force simp: store_abbreviations_def)
qed

lemma plain_expanded: "list_all plain (fst (expanded raw store))"
proof -
  have "list_all (\<lambda>entry. list_all plain (snd entry)) (store_abbreviations store)"
    using plain_tables store_abbreviations_table [of store] by (auto simp: list_all_iff)
  moreover have "list_all (\<lambda>entry. list_all plain (snd entry)) COMMON_ABBREVIATIONS"
    using plain_tables by simp
  ultimately show ?thesis
    unfolding expanded_def by (intro plain_fold_expand) (simp_all add: plain_clean_up)
qed

text \<open>
  An enhanced name is trimmed, has single spaces, is in title case and has no character
  that the clean-up removes: the clean-up and the title case leave it as it is.
\<close>

lemma title_case_shape:
  assumes "list_all plain x"
  shows "clean_up (title_case x) = title_case x"
    and "title_case (title_case x) = title_case x"
proof -
  let ?y = "recase True x"
  let ?o = "title_case x"
  have o: "?o = trim (squeeze False ?y)" by (rule title_case_eq)
  have y: "list_all plain ?y" using assms by (rule plain_recase)
  have plain: "list_all plain ?o"
    unfolding o by (intro plain_trim plain_squeeze y)
  have trimmed: "trim ?o = ?o"
    unfolding o by (rule trim_trim)
  have squeezed: "squeeze False ?o = ?o"
    unfolding o by (rule squeeze_spaced [OF spaced_trim [OF spaced_squeeze]])
  have "recase True ?o = trim (recase True (squeeze False ?y))"
    unfolding o by (intro recase_trim plain_spaces plain_squeeze y)
  also have "recase True (squeeze False ?y) = squeeze False (recase True ?y)"
    by (intro recase_squeeze plain_spaces y) simp
  finally have titled: "recase True ?o = ?o"
    by (simp only: recase_recase o)
  have "filter allowed ?o = ?o"
    using plain by (auto simp: list_all_iff plain_def intro: filter_True)
  thus "clean_up ?o = ?o"
    by (simp only: clean_up_eq trimmed squeezed)
  show "title_case ?o = ?o"
    by (simp only: title_case_eq [of ?o] titled squeezed trimmed)
qed

text \<open>The abbreviations that occur in a settled name leave its letters as they are.\<close>

lemma expand_same_letters:
  assumes "test (abbrev_rx (fst entry)) nm
           \<longrightarrow> toLowerCase (snd entry) = toLowerCase (fst entry)"
    and "toLowerCase (fst st) = toLowerCase nm"
  shows "toLowerCase (fst (expand b entry st)) = toLowerCase nm"
proof (cases "test (abbrev_rx (fst entry)) (fst st)")
  case False
  thus ?thesis using assms(2) by (simp add: expand_def)
next
  case True
  hence "test (abbrev_rx (fst entry)) nm"
    using test_same_letters [OF assms(2)] by simp
  hence "toLowerCase (snd entry) = toLowerCase (fst entry)" using assms(1) by simp
  from replace_same_letters [OF this, of 0 None "fst st"] True assms(2)
  show ?thesis by (simp add: expand_def replace_all_def abbrev_rx_def)
qed

lemma fold_expand_same_letters:
  "list_all (\<lambda>entry. test (abbrev_rx (fst entry)) nm
                      \<longrightarrow> toLowerCase (snd entry) = toLowerCase (fst entry)) es \<Longrightarrow>
   toLowerCase (fst st) = toLowerCase nm \<Longrightarrow>
   toLowerCase (fst (fold (expand b) es st)) = toLowerCase nm"
  by (induction es arbitrary: st) (simp_all add: expand_same_letters)

text \<open>
  C9 (as amended). Applying \<open>enhanceProductName\<close> to its own enhanced name returns that
  name again, for every name and every store, provided the enhanced name is settled: every
  abbreviation that still occurs in it as a whole word has an expansion that spells the
  abbreviation itself. The clean-up and the title case leave every enhanced name as it is;
  only an abbreviation with another expansion changes it. (The confidence may differ.)
\<close>

theorem enhanceProductName_idempotent:
  assumes "settled (ep_enhancedName (enhanceProductName raw store)) store"
  shows "ep_enhancedName
           (enhanceProductName (ep_enhancedName (enhanceProductName raw store)) store)
         = ep_enhancedName (enhanceProductName raw store)"
proof -
  let ?x = "fst (expanded raw store)"
  let ?o = "title_case ?x"
  have x: "list_all plain ?x" by (rule plain_expanded)
  have settled: "settled ?o store" using assms by (simp only: enhancedName_eq)
  hence stores: "list_all (\<lambda>entry. test (abbrev_rx (fst entry)) ?o
                    \<longrightarrow> toLowerCase (snd entry) = toLowerCase (fst entry))
                   (store_abbreviations store)"
    and commons: "list_all (\<lambda>entry. test (abbrev_rx (fst entry)) ?o
                    \<longrightarrow> toLowerCase (snd entry) = toLowerCase (fst entry))
                   COMMON_ABBREVIATIONS"
    by (simp_all add: settled_def)
  have second: "expanded ?o store
                  = fold (expand 0.05) COMMON_ABBREVIATIONS
                      (fold (expand 0.1) (store_abbreviations store) (?o, 0.7))"
    by (simp only: expanded_def [of ?o store] title_case_shape(1) [OF x])
  have "toLowerCase (fst (fold (expand 0.1) (store_abbreviations store) (?o, 0.7)))
          = toLowerCase ?o"
    using stores by (rule fold_expand_same_letters) simp
  with commons have "toLowerCase (fst (expanded ?o store)) = toLowerCase ?o"
    unfolding second by (rule fold_expand_same_letters)
  hence "recase True (fst (expanded ?o store)) = recase True ?o"
    by (rule recase_same_letters)
  hence "title_case (fst (expanded ?o store)) = title_case ?o"
    by (simp only: title_case_eq)
  thus ?thesis
    by (simp only: enhancedName_eq title_case_shape(2) [OF x])
qed

text \<open>
  \<open>WHL GRAIN BREAD\<close> at the store \<open>SAFEWAY\<close>: the enhanced name is
  \<open>Whole Grain Bread\<close>, in which the abbreviation \<open>WHOLE GRAIN\<close> of the store occurs,
  with the expansion \<open>Whole Grain\<close>; the name is settled and is returned again.
\<close>

lemma whole_grain_first:
  "ep_enhancedName (enhanceProductName ''WHL GRAIN BREAD'' ''SAFEWAY'') = ''Whole Grain Bread''"
proof -
  have c: "clean_up ''WHL GRAIN BREAD'' = ''WHL GRAIN BREAD''"
    by (simp add: enhancer_eval)
  have s: "fold (expand 0.1) (store_abbreviations ''SAFEWAY'') (''WHL GRAIN BREAD'', 0.7)
             = (''WHL GRAIN BREAD'', 0.7)"
    by (simp add: store_abbreviations_def STORE_PATTERNS_def enhancer_eval)
  have f: "fold (expand 0.05) COMMON_ABBREVIATIONS (''WHL GRAIN BREAD'', 0.7)
             = (''Whole GRAIN BREAD'', 0.75)"
    by (simp add: COMMON_ABBREVIATIONS_def enhancer_eval)
  have t: "title_case ''Whole GRAIN BREAD'' = ''Whole Grain Bread''"
    by (simp add: enhancer_eval)
  show ?thesis
    by (simp only: enhancedName_eq expanded_def c s f fst_conv t)
qed

lemma whole_grain_settled:
  "settled ''Whole Grain Bread'' ''SAFEWAY''"
  by (simp add: settled_def store_abbreviations_def STORE_PATTERNS_def
        COMMON_ABBREVIATIONS_def enhancer_eval)

lemma whole_grain_occurs: "test (abbrev_rx ''WHOLE GRAIN'') ''Whole Grain Bread''"
  by (simp add: enhancer_eval)

theorem enhanceProductName_idempotent_witness:
  "ep_enhancedName (enhanceProductName ''WHL GRAIN BREAD'' ''SAFEWAY'') = ''Whole Grain Bread''
   \<and> settled ''Whole Grain Bread'' ''SAFEWAY''
   \<and> test (abbrev_rx ''WHOLE GRAIN'') ''Whole Grain Bread''
   \<and> ep_enhancedName (enhanceProductName ''Whole Grain Bread'' ''SAFEWAY'')
       = ''Whole Grain Bread''"
  using enhanceProductName_idempotent [of "''WHL GRAIN BREAD''" "''SAFEWAY''"]
    whole_grain_settled whole_grain_occurs
  by (simp only: whole_grain_first simp_thms)

text \<open>
  C9 as stated fails for \<open>MIX / VEG\<close> at the store \<open>WALMART\<close>. The first clean-up removes
  the slash and leaves two spaces, so the pattern \<open>MIX VEG\<close> does not match; the final
  clean-up makes the two spaces one, and the result \<open>Mix Veg\<close> is enhanced to
  \<open>Mixed Vegetables\<close> when it is given to the function again.
\<close>

lemma mix_veg_first:
  "ep_enhancedName (enhanceProductName ''MIX / VEG'' ''WALMART'') = ''Mix Veg''"
proof -
  have c: "clean_up ''MIX / VEG'' = ''MIX  VEG''"
    by (simp add: enhancer_eval)
  have s: "fold (expand 0.1) (store_abbreviations ''WALMART'') (''MIX  VEG'', 0.7)
             = (''MIX  VEG'', 0.7)"
    by (simp add: store_abbreviations_def STORE_PATTERNS_def enhancer_eval)
  have f: "fold (expand 0.05) COMMON_ABBREVIATIONS (''MIX  VEG'', 0.7) = (''MIX  VEG'', 0.7)"
    by (simp add: COMMON_ABBREVIATIONS_def enhancer_eval)
  have t: "title_case ''MIX  VEG'' = ''Mix Veg''"
    by (simp add: enhancer_eval)
  show ?thesis
    by (simp only: enhancedName_eq expanded_def c s f fst_conv t)
qed

lemma mix_veg_second:
  "ep_enhancedName (enhanceProductName ''Mix Veg'' ''WALMART'') = ''Mixed Vegetables''"
proof -
  have c: "clean_up ''Mix Veg'' = ''Mix Veg''"
    by (simp add: enhancer_eval)
  have s: "fold (expand 0.1) (store_abbreviations ''WALMART'') (''Mix Veg'', 0.7)
             = (''Mixed Vegetables'', 0.8)"
    by (simp add: store_abbreviations_def STORE_PATTERNS_def enhancer_eval)
  have f: "fold (expand 0.05) COMMON_ABBREVIATIONS (''Mixed Vegetables'', 0.8)
             = (''Mixed Vegetables'', 0.8)"
    by (simp add: COMMON_ABBREVIATIONS_def enhancer_eval)
  have t: "title_case ''Mixed Vegetables'' = ''Mixed Vegetables''"
    by (simp add: enhancer_eval)
  show ?thesis
    by (simp only: enhancedName_eq expanded_def c s f fst_conv t)
qed

theorem enhanceProductName_idempotence_counterexample:
  "ep_enhancedName
     (enhanceProductName (ep_enhancedName (enhanceProductName ''MIX / VEG'' ''WALMART''))
        ''WALMART'')
   \<noteq> ep_enhancedName (enhanceProductName ''MIX / VEG'' ''WALMART'')"
  by (simp add: mix_veg_first mix_veg_second)

text \<open>The enhanced name \<open>Mix Veg\<close> is not settled.\<close>

lemma mix_veg_not_settled: "\<not> settled ''Mix Veg'' ''WALMART''"
  by (simp add: settled_def store_abbreviations_def STORE_PATTERNS_def
        COMMON_ABBREVIATIONS_def enhancer_eval)

text \<open>
  Another name whose enhanced name is not settled, with single spaces only: \<open>UP&UP&UP\<close> at
  the store \<open>TARGET\<close>. The first two words are expanded, the expansion and the rest form the
  abbreviation \<open>UP&UP\<close> again, and the enhanced name \<open>Up & Up&up\<close> is enhanced to
  \<open>Up & Up & Up\<close>.
\<close>

lemma up_up_first:
  "ep_enhancedName (enhanceProductName ''UP&UP&UP'' ''TARGET'') = ''Up & Up&up''"
proof -
  have c: "clean_up ''UP&UP&UP'' = ''UP&UP&UP''"
    by (simp add: enhancer_eval)
  have s: "fold (expand 0.1) (store_abbreviations ''TARGET'') (''UP&UP&UP'', 0.7)
             = (''Up & Up&UP'', 0.8)"
    by (simp add: store_abbreviations_def STORE_PATTERNS_def enhancer_eval)
  have f: "fold (expand 0.05) COMMON_ABBREVIATIONS (''Up & Up&UP'', 0.8)
             = (''Up & Up&UP'', 0.8)"
    by (simp add: COMMON_ABBREVIATIONS_def enhancer_eval)
  have t: "title_case ''Up & Up&UP'' = ''Up & Up&up''"
    by (simp add: enhancer_eval)
  show ?thesis
    by (simp only: enhancedName_eq expanded_def c s f fst_conv t)
qed

lemma up_up_second:
  "ep_enhancedName (enhanceProductName ''Up & Up&up'' ''TARGET'') = ''Up & Up & Up''"
proof -
  have c: "clean_up ''Up & Up&up'' = ''Up & Up&up''"
    by (simp add: enhancer_eval)
  have s: "fold (expand 0.1) (store_abbreviations ''TARGET'') (''Up & Up&up'', 0.7)
             = (''Up & Up & Up'', 0.8)"
    by (simp add: store_abbreviations_def STORE_PATTERNS_def enhancer_eval)
  have f: "fold (expand 0.05) COMMON_ABBREVIATIONS (''Up & Up & Up'', 0.8)
             = (''Up & Up & Up'', 0.8)"
    by (simp add: COMMON_ABBREVIATIONS_def enhancer_eval)
  have t: "title_case ''Up & Up & Up'' = ''Up & Up & Up''"
    by (simp add: enhancer_eval)
  show ?thesis
    by (simp only: enhancedName_eq expanded_def c s f fst_conv t)
qed

lemma up_up_not_idempotent:
  "ep_enhancedName
     (enhanceProductName (ep_enhancedName (enhanceProductName ''UP&UP&UP'' ''TARGET''))
        ''TARGET'')
   \<noteq> ep_enhancedName (enhanceProductName ''UP&UP&UP'' ''TARGET'')
   \<and> \<not> settled (ep_enhancedName (enhanceProductName ''UP&UP&UP'' ''TARGET'')) ''TARGET''"
proof -
  have "\<not> settled ''Up & Up&up'' ''TARGET''"
    by (simp add: settled_def store_abbreviations_def STORE_PATTERNS_def
          COMMON_ABBREVIATIONS_def enhancer_eval)
  thus ?thesis by (simp add: up_up_first up_up_second)
qed

end
